theory Spec2Isabelle
  imports Complex_Main "HOL-Library.Sublist"
begin

section \<open>Errors\<close>

text \<open>
  Every \<^verbatim>\<open>raise\<close> of the three source files, and every exception that an external
  collaborator can throw into them, is a value of this type. The constructors keep the
  raise sites apart, so that a theorem can say which statement failed.
\<close>

datatype error =
    UnknownModelSet string
      \<comment> \<open>\<^verbatim>\<open>RuntimeError(f"Unknown model set from filename: {filename}")\<close>, upload.py line 14\<close>
  | MetricsNeededEmpty "string list"
      \<comment> \<open>\<^verbatim>\<open>ValueError(f"Expected metrics_needed to be non-empty, get: {metrics_needed}")\<close>,
          metrics.py line 78\<close>
  | BadModelType
      \<comment> \<open>\<^verbatim>\<open>ValueError(f"Expected BenchmarkModel or ModelTask, ...")\<close>, metrics.py line 164\<close>
  | ZeroDivisionError
      \<comment> \<open>float division by \<^verbatim>\<open>0.0\<close>, metrics.py line 189\<close>
  | Raised string
      \<comment> \<open>an exception thrown by a collaborator: the measured callback, the model loader\<close>
  | FileNotFoundError string
      \<comment> \<open>\<^verbatim>\<open>open(path)\<close> on a path that does not exist\<close>
  | MissingFieldnames
      \<comment> \<open>\<^verbatim>\<open>TypeError\<close>: \<^verbatim>\<open>csv.DictWriter\<close> called without its required \<^verbatim>\<open>fieldnames\<close>\<close>
  | NotWritable string
      \<comment> \<open>\<^verbatim>\<open>io.UnsupportedOperation\<close>: writing to a file opened for reading\<close>
  | BadPattern string
      \<comment> \<open>\<^verbatim>\<open>re.error\<close>: \<^verbatim>\<open>re.compile\<close> rejects the pattern\<close>

section \<open>userbenchmark/torchao/upload.py\<close>

subsection \<open>Substring test\<close>

text \<open>
  Python's \<^verbatim>\<open>needle in haystack\<close> on strings: the needle occurs as a contiguous
  block. The function scans the haystack from the left and tests for a prefix at each
  position.
\<close>

fun str_in :: "string \<Rightarrow> string \<Rightarrow> bool" where
  "str_in needle [] = (needle = [])"
| "str_in needle (c # cs) = (prefix needle (c # cs) \<or> str_in needle cs)"

subsection \<open>\<^verbatim>\<open>_get_model_set\<close>\<close>

text \<open>
  \<^verbatim>\<open>
  def _get_model_set(filename: str):
      if "timm_models" in filename:
          return "timm"
      if "huggingface" in filename:
          return "huggingface"
      if "torchbench" in filename:
          return "torchbench"
      raise RuntimeError(f"Unknown model set from filename: {filename}")
  \<close>
\<close>

definition get_model_set :: "string \<Rightarrow> error + string" where
  "get_model_set filename =
     (if str_in ''timm_models'' filename then Inr ''timm''
      else if str_in ''huggingface'' filename then Inr ''huggingface''
      else if str_in ''torchbench'' filename then Inr ''torchbench''
      else Inl (UnknownModelSet filename))"

section \<open>torchbenchmark/util/experiment/metrics.py\<close>

subsection \<open>Constants and data\<close>

definition WARMUP_ROUNDS :: int where "WARMUP_ROUNDS = 10"
definition BENCHMARK_ITERS :: int where "BENCHMARK_ITERS = 15"
definition MEMPROF_ITER :: int where "MEMPROF_ITER = 2"
definition NANOSECONDS_PER_MILLISECONDS :: real where "NANOSECONDS_PER_MILLISECONDS = 1000000"

text \<open>
  Python floats are modelled as reals: rounding is not part of the model, a division by
  \<^verbatim>\<open>0.0\<close> is (it raises). The dataclass of the source, field for field; \<^verbatim>\<open>accuracy\<close>
  holds whatever the model reports as its accuracy attribute, a string by the signature of
  \<^verbatim>\<open>get_model_accuracy\<close>.
\<close>

record TorchBenchModelMetrics =
  latencies :: "real list"
  throughputs :: "real list"
  accuracy :: "string option"
  cpu_peak_mem :: "real option"
  gpu_peak_mem :: "real option"
  ttfb :: "real option"
  pt2_compilation_time :: "real option"
  pt2_graph_breaks :: "real option"
  model_flops :: "real option"
  error_msg :: "string option"

text \<open>
  The record both \<^verbatim>\<open>get_model_test_metrics\<close> and \<^verbatim>\<open>run_config\<close> start from:
  \<^verbatim>\<open>TorchBenchModelMetrics(latencies=[], throughputs=[], accuracy=None, ...)\<close>.
\<close>

definition empty_metrics :: TorchBenchModelMetrics where
  "empty_metrics = \<lparr> latencies = [], throughputs = [], accuracy = None,
     cpu_peak_mem = None, gpu_peak_mem = None, ttfb = None, pt2_compilation_time = None,
     pt2_graph_breaks = None, model_flops = None, error_msg = None \<rparr>"

text \<open>
  \<^verbatim>\<open>TorchBenchModelConfig\<close> is declared in the instantiator module; these are the
  fields metrics.py reads.
\<close>

record TorchBenchModelConfig =
  name :: string
  extra_args :: "string list"
  metrics :: "string list"

subsection \<open>The world the harness runs in\<close>

text \<open>
  One call of a callback either returns after some nanoseconds of wall clock or raises.
  Everything the harness does to its surroundings is appended to a trace, oldest event
  first; the clock is what \<^verbatim>\<open>time.time_ns()\<close> returns next. Time passes in the
  callback only: the device barrier \<^verbatim>\<open>torch.cuda.synchronize()\<close> is an event that
  costs nothing by itself, the device work it waits for being part of the call.
\<close>

datatype outcome = Returns int | Raises string

datatype event =
    Called outcome
  | Synchronize
  | NewAnalyzer string "string list" string "int option"
  | StartMonitor
  | StopMonitor
  | Aggregate
  | CalculateGpuPeakMem
  | CalculateCpuPeakMem
  | UpdateExportName string
  | ExportAllRecordsToCsv
  | FlopCounterEnter
  | FlopCounterExit
  | LoadModelIsolated TorchBenchModelConfig
  | LoadModel TorchBenchModelConfig
  | DeleteModel
  | PrintRunningConfig TorchBenchModelConfig
  | Print string

record world =
  clock :: int
  trace :: "event list"

type_synonym callback = "world \<Rightarrow> outcome"

type_synonym 'a action = "world \<Rightarrow> (error + 'a) \<times> world"

definition emit :: "event \<Rightarrow> world \<Rightarrow> world" where
  "emit e w = w\<lparr>trace := trace w @ [e]\<rparr>"

definition time_ns :: "world \<Rightarrow> int" where
  "time_ns w = clock w"

definition ret :: "'a \<Rightarrow> 'a action" where
  "ret x w = (Inr x, w)"

definition raise :: "error \<Rightarrow> 'a action" where
  "raise e w = (Inl e, w)"

text \<open>Sequencing: an exception in the first statement skips the rest.\<close>

definition seq :: "'a action \<Rightarrow> ('a \<Rightarrow> 'b action) \<Rightarrow> 'b action" where
  "seq m f w = (case m w of (Inl e, w') \<Rightarrow> (Inl e, w') | (Inr x, w') \<Rightarrow> f x w')"

definition effect :: "event \<Rightarrow> unit action" where
  "effect e w = (Inr (), emit e w)"

text \<open>\<^verbatim>\<open>func()\<close>: the callback sees the world, the harness records what it did.\<close>

definition call :: "callback \<Rightarrow> unit action" where
  "call func w =
     (case func w of
        Returns dt \<Rightarrow> (Inr (), emit (Called (Returns dt)) (w\<lparr>clock := clock w + dt\<rparr>))
      | Raises msg \<Rightarrow> (Inl (Raised msg), emit (Called (Raises msg)) w))"

text \<open>\<^verbatim>\<open>for _i in range(n): body\<close>; \<^verbatim>\<open>range\<close> of a negative count is empty.\<close>

fun repeat :: "nat \<Rightarrow> unit action \<Rightarrow> unit action" where
  "repeat 0 body w = (Inr (), w)"
| "repeat (Suc k) body w =
     (case body w of (Inl e, w') \<Rightarrow> (Inl e, w') | (Inr _, w') \<Rightarrow> repeat k body w')"

subsection \<open>\<^verbatim>\<open>get_latencies\<close>\<close>

text \<open>
  One pass of the measured loop (lines 44 to 56): the two branches differ in the
  synchronisation barriers only. The result is
  \<^verbatim>\<open>(t1 - t0) / NANOSECONDS_PER_MILLISECONDS\<close>.
\<close>

definition timed_call :: "callback \<Rightarrow> string \<Rightarrow> real action" where
  "timed_call func device w =
     (if device = ''cuda'' then
        (let w1 = emit Synchronize w; t0 = time_ns w1 in
         case call func w1 of
           (Inl e, w2) \<Rightarrow> (Inl e, w2)
         | (Inr _, w2) \<Rightarrow>
             (let w3 = emit Synchronize w2; t1 = time_ns w3 in
              (Inr (real_of_int (t1 - t0) / NANOSECONDS_PER_MILLISECONDS), w3)))
      else
        (let t0 = time_ns w in
         case call func w of
           (Inl e, w2) \<Rightarrow> (Inl e, w2)
         | (Inr _, w2) \<Rightarrow>
             (let t1 = time_ns w2 in
              (Inr (real_of_int (t1 - t0) / NANOSECONDS_PER_MILLISECONDS), w2))))"

fun timed_loop :: "callback \<Rightarrow> string \<Rightarrow> nat \<Rightarrow> real list \<Rightarrow> (real list) action" where
  "timed_loop func device 0 result_summary w = (Inr result_summary, w)"
| "timed_loop func device (Suc k) result_summary w =
     (case timed_call func device w of
        (Inl e, w') \<Rightarrow> (Inl e, w')
      | (Inr latency, w') \<Rightarrow> timed_loop func device k (result_summary @ [latency]) w')"

definition get_latencies :: "callback \<Rightarrow> string \<Rightarrow> int \<Rightarrow> int \<Rightarrow> (real list) action" where
  "get_latencies func device nwarmup num_iter =
     seq (repeat (nat nwarmup) (call func))
         (\<lambda>_. timed_loop func device (nat num_iter) [])"

subsection \<open>\<^verbatim>\<open>get_peak_memory\<close>\<close>

text \<open>
  \<^verbatim>\<open>ModelAnalyzer\<close> lives in another module. Its calls are events of the trace; what its
  two \<^verbatim>\<open>calculate\<close> methods return, the flop counts the framework collects and the
  process id are parameters, and so are the two model loaders of the instantiator module.
\<close>

record model_attrs =
  invoke :: callback
  attr_device :: string
  attr_batch_size :: int
  attr_pt2_compilation_time :: "real option"
  attr_pt2_graph_breaks :: "real option"
  attr_ttfb :: "real option"
  attr_accuracy :: "string option"
  worker_proc_pid :: int

text \<open>
  A model handle is an in-process \<^verbatim>\<open>BenchmarkModel\<close>, a \<^verbatim>\<open>ModelTask\<close> running in a
  worker process, or some other object.
\<close>

datatype model = BenchmarkModel model_attrs | ModelTask model_attrs | OtherObject

record env =
  calculate_gpu_peak_mem :: "world \<Rightarrow> string option \<times> real option"
  calculate_cpu_peak_mem :: "world \<Rightarrow> real option"
  flop_counts_global :: "world \<Rightarrow> real list"
  getpid :: int
  load_model_isolated :: "TorchBenchModelConfig \<Rightarrow> world \<Rightarrow> error + model"
  load_model :: "TorchBenchModelConfig \<Rightarrow> world \<Rightarrow> error + model"

text \<open>The inner \<^verbatim>\<open>work_func\<close> of \<^verbatim>\<open>get_peak_memory\<close> and \<^verbatim>\<open>get_model_flops\<close>.\<close>

definition work_func :: "callback \<Rightarrow> string \<Rightarrow> unit action" where
  "work_func func device =
     (if device = ''cuda'' then
        seq (effect Synchronize) (\<lambda>_. seq (call func) (\<lambda>_. effect Synchronize))
      else call func)"

text \<open>Lines 109 to 119: what is read from the analyzer once the samples are aggregated.\<close>

definition collect_peaks ::
  "env \<Rightarrow> string \<Rightarrow> string list \<Rightarrow> (real option \<times> string option \<times> real option) action" where
  "collect_peaks E export_metrics_file metrics_needed w =
     (let (device_id, gpu_peak_mem, w1) =
            (if ''gpu_peak_mem'' \<in> set metrics_needed
             then (fst (calculate_gpu_peak_mem E w), snd (calculate_gpu_peak_mem E w),
                   emit CalculateGpuPeakMem w)
             else (None, None, w));
          (cpu_peak_mem, w2) =
            (if ''cpu_peak_mem'' \<in> set metrics_needed
             then (calculate_cpu_peak_mem E w1, emit CalculateCpuPeakMem w1)
             else (None, w1));
          w3 = (if export_metrics_file \<noteq> []
                then emit ExportAllRecordsToCsv (emit (UpdateExportName ''_peak_memory'') w2)
                else w2)
      in (Inr (cpu_peak_mem, device_id, gpu_peak_mem), w3))"

text \<open>
  The argument \<^verbatim>\<open>num_iter\<close> is read once, for \<^verbatim>\<open>continue_num_iter\<close>, which nothing
  uses; line 99 then overwrites it.
\<close>

definition get_peak_memory ::
  "env \<Rightarrow> callback \<Rightarrow> string \<Rightarrow> int \<Rightarrow> string \<Rightarrow> string list \<Rightarrow> string \<Rightarrow> int option
    \<Rightarrow> (real option \<times> string option \<times> real option) action" where
  "get_peak_memory E func device num_iter export_metrics_file metrics_needed
       metrics_gpu_backend cpu_monitored_pid w =
     (let new_metrics_needed =
            filter (\<lambda>m. m \<in> set [''cpu_peak_mem'', ''gpu_peak_mem'']) metrics_needed in
      if new_metrics_needed = [] then (Inl (MetricsNeededEmpty metrics_needed), w)
      else
        (let w1 = emit (NewAnalyzer export_metrics_file new_metrics_needed
                          metrics_gpu_backend cpu_monitored_pid) w;
             continue_num_iter = BENCHMARK_ITERS - num_iter;
             t0 = time_ns w1 in
         case work_func func device w1 of
           (Inl e, w2) \<Rightarrow> (Inl e, w2)
         | (Inr _, w2) \<Rightarrow>
             (let t1 = time_ns w2;
                  num_iter' = (if real_of_int (t1 - t0) < 15 * NANOSECONDS_PER_MILLISECONDS
                               then BENCHMARK_ITERS else MEMPROF_ITER);
                  w3 = emit StartMonitor w2 in
              case repeat (nat num_iter') (work_func func device) w3 of
                (Inl e, w4) \<Rightarrow> (Inl e, w4)
              | (Inr _, w4) \<Rightarrow>
                  collect_peaks E export_metrics_file metrics_needed
                    (emit Aggregate (emit StopMonitor w4)))))"

subsection \<open>\<^verbatim>\<open>get_model_flops\<close>\<close>

definition attrs_of :: "model \<Rightarrow> model_attrs option" where
  "attrs_of m = (case m of BenchmarkModel a \<Rightarrow> Some a | ModelTask a \<Rightarrow> Some a
                 | OtherObject \<Rightarrow> None)"

text \<open>
  \<^verbatim>\<open>with flop_counter: work_func()\<close>: the counting scope is left on both exits, then
  the counts of the \<^verbatim>\<open>Global\<close> table are added up.
\<close>

definition get_model_flops :: "env \<Rightarrow> model_attrs \<Rightarrow> real action" where
  "get_model_flops E a w =
     (case work_func (invoke a) (attr_device a) (emit FlopCounterEnter w) of
        (Inl e, w') \<Rightarrow> (Inl e, emit FlopCounterExit w')
      | (Inr _, w') \<Rightarrow>
          (let w2 = emit FlopCounterExit w' in
           (Inr (sum_list (flop_counts_global E w2)), w2)))"

subsection \<open>\<^verbatim>\<open>get_model_test_metrics\<close>\<close>

text \<open>
  One definition for each \<^verbatim>\<open>if\<close> of lines 175 to 209; each takes the record built so
  far and returns it updated. \<^verbatim>\<open>export_metrics_file\<close> is a string, empty where the
  source passes \<^verbatim>\<open>False\<close>.
\<close>

definition measure_latencies ::
  "model_attrs \<Rightarrow> string list \<Rightarrow> int \<Rightarrow> int \<Rightarrow> TorchBenchModelMetrics
    \<Rightarrow> TorchBenchModelMetrics action" where
  "measure_latencies a required_metrics nwarmup num_iter r =
     (if ''latencies'' \<in> set required_metrics \<or> ''throughputs'' \<in> set required_metrics
      then seq (get_latencies (invoke a) (attr_device a) nwarmup num_iter)
               (\<lambda>ls. ret (r\<lparr>latencies := ls\<rparr>))
      else ret r)"

definition measure_peak_memory ::
  "env \<Rightarrow> model_attrs \<Rightarrow> int \<Rightarrow> string list \<Rightarrow> string \<Rightarrow> string \<Rightarrow> TorchBenchModelMetrics
    \<Rightarrow> TorchBenchModelMetrics action" where
  "measure_peak_memory E a model_pid required_metrics export_metrics_file metrics_gpu_backend r =
     (if ''cpu_peak_mem'' \<in> set required_metrics \<or> ''gpu_peak_mem'' \<in> set required_metrics
      then seq (get_peak_memory E (invoke a) (attr_device a) MEMPROF_ITER export_metrics_file
                  required_metrics metrics_gpu_backend (Some model_pid))
               (\<lambda>(cpu, device_id, gpu). ret (r\<lparr>cpu_peak_mem := cpu, gpu_peak_mem := gpu\<rparr>))
      else ret r)"

text \<open>
  Line 189, \<^verbatim>\<open>[model.batch_size * 1000 / latency for latency in metrics.latencies]\<close>:
  the division raises on a latency of zero.
\<close>

definition derive_throughputs ::
  "model_attrs \<Rightarrow> string list \<Rightarrow> TorchBenchModelMetrics \<Rightarrow> TorchBenchModelMetrics action" where
  "derive_throughputs a required_metrics r =
     (if ''throughputs'' \<in> set required_metrics
      then (if 0 \<in> set (latencies r) then raise ZeroDivisionError
            else ret (r\<lparr>throughputs :=
                      map (\<lambda>latency. real_of_int (attr_batch_size a * 1000) / latency)
                          (latencies r)\<rparr>))
      else ret r)"

definition read_attributes ::
  "env \<Rightarrow> model_attrs \<Rightarrow> string list \<Rightarrow> TorchBenchModelMetrics \<Rightarrow> TorchBenchModelMetrics action" where
  "read_attributes E a required_metrics r =
     (let r1 = (if ''pt2_compilation_time'' \<in> set required_metrics
                then r\<lparr>pt2_compilation_time := attr_pt2_compilation_time a\<rparr> else r);
          r2 = (if ''pt2_graph_breaks'' \<in> set required_metrics
                then r1\<lparr>pt2_graph_breaks := attr_pt2_graph_breaks a\<rparr> else r1)
      in seq (if ''model_flops'' \<in> set required_metrics
              then seq (get_model_flops E a) (\<lambda>f. ret (r2\<lparr>model_flops := Some f\<rparr>))
              else ret r2)
             (\<lambda>r3. ret (if ''ttfb'' \<in> set required_metrics
                         then r3\<lparr>ttfb := attr_ttfb a\<rparr> else r3)))"

definition get_model_test_metrics ::
  "env \<Rightarrow> model \<Rightarrow> string list \<Rightarrow> string \<Rightarrow> string \<Rightarrow> int \<Rightarrow> int
    \<Rightarrow> TorchBenchModelMetrics action" where
  "get_model_test_metrics E m required_metrics export_metrics_file metrics_gpu_backend
       nwarmup num_iter =
     (case m of
        OtherObject \<Rightarrow> raise BadModelType
      | BenchmarkModel a \<Rightarrow>
          seq (measure_latencies a required_metrics nwarmup num_iter empty_metrics) (\<lambda>r.
          seq (measure_peak_memory E a (getpid E) required_metrics export_metrics_file
                 metrics_gpu_backend r) (\<lambda>r.
          seq (derive_throughputs a required_metrics r) (\<lambda>r.
          read_attributes E a required_metrics r)))
      | ModelTask a \<Rightarrow>
          seq (measure_latencies a required_metrics nwarmup num_iter empty_metrics) (\<lambda>r.
          seq (measure_peak_memory E a (worker_proc_pid a) required_metrics export_metrics_file
                 metrics_gpu_backend r) (\<lambda>r.
          seq (derive_throughputs a required_metrics r) (\<lambda>r.
          read_attributes E a required_metrics r))))"

subsection \<open>\<^verbatim>\<open>get_model_accuracy\<close>\<close>

text \<open>
  The loaders are parameters; a loaded object that is no model handle has no accuracy
  attribute, which Python reports as an \<^verbatim>\<open>AttributeError\<close>.
\<close>

definition get_model_accuracy ::
  "env \<Rightarrow> TorchBenchModelConfig \<Rightarrow> bool \<Rightarrow> (string option) action" where
  "get_model_accuracy E model_config isolated w =
     (let accuracy_model_config =
            (if ''--accuracy'' \<notin> set (extra_args model_config)
             then model_config\<lparr>extra_args := ''--accuracy'' # extra_args model_config\<rparr>
             else model_config);
          w1 = emit ((if isolated then LoadModelIsolated else LoadModel) accuracy_model_config) w
      in case (if isolated then load_model_isolated E else load_model E)
                accuracy_model_config w of
           Inl e \<Rightarrow> (Inl e, w1)
         | Inr m \<Rightarrow>
             (case attrs_of m of
                None \<Rightarrow> (Inl (Raised ''AttributeError''), w1)
              | Some a \<Rightarrow> (Inr (attr_accuracy a), emit DeleteModel w1)))"

subsection \<open>\<^verbatim>\<open>run_config\<close>\<close>

datatype pyval = PyNone | PyFloat real | PyStr string | PyFloats "real list"

datatype run_output = AsRecord TorchBenchModelMetrics | AsDict "(string \<times> pyval) list"

definition opt_float :: "real option \<Rightarrow> pyval" where
  "opt_float x = (case x of None \<Rightarrow> PyNone | Some v \<Rightarrow> PyFloat v)"

definition opt_str :: "string option \<Rightarrow> pyval" where
  "opt_str x = (case x of None \<Rightarrow> PyNone | Some v \<Rightarrow> PyStr v)"

text \<open>\<^verbatim>\<open>dataclasses.asdict\<close>: the fields in declaration order.\<close>

definition asdict :: "TorchBenchModelMetrics \<Rightarrow> (string \<times> pyval) list" where
  "asdict r =
     [(''latencies'', PyFloats (latencies r)), (''throughputs'', PyFloats (throughputs r)),
      (''accuracy'', opt_str (accuracy r)), (''cpu_peak_mem'', opt_float (cpu_peak_mem r)),
      (''gpu_peak_mem'', opt_float (gpu_peak_mem r)), (''ttfb'', opt_float (ttfb r)),
      (''pt2_compilation_time'', opt_float (pt2_compilation_time r)),
      (''pt2_graph_breaks'', opt_float (pt2_graph_breaks r)),
      (''model_flops'', opt_float (model_flops r)), (''error_msg'', opt_str (error_msg r))]"

definition as_output :: "bool \<Rightarrow> TorchBenchModelMetrics \<Rightarrow> run_output" where
  "as_output as_dict r = (if as_dict then AsDict (asdict r) else AsRecord r)"

text \<open>Lines 265 to 268: the accuracy check and \<^verbatim>\<open>required_metrics.remove("accuracy")\<close>.\<close>

definition take_accuracy ::
  "env \<Rightarrow> TorchBenchModelConfig \<Rightarrow> string list \<Rightarrow> (string option \<times> string list) action" where
  "take_accuracy E config required_metrics =
     (if ''accuracy'' \<in> set required_metrics
      then seq (get_model_accuracy E config True)
               (\<lambda>accuracy. ret (accuracy, remove1 ''accuracy'' required_metrics))
      else ret (None, required_metrics))"

text \<open>Lines 269 to 274: the other metrics, on a model loaded in its own process.\<close>

definition measure_rest ::
  "env \<Rightarrow> TorchBenchModelConfig \<Rightarrow> string list \<Rightarrow> TorchBenchModelMetrics action" where
  "measure_rest E config required_metrics w =
     (if required_metrics \<noteq> [] then
        (case load_model_isolated E config w of
           Inl e \<Rightarrow> (Inl e, emit (LoadModelIsolated config) w)
         | Inr model_task \<Rightarrow>
             get_model_test_metrics E model_task required_metrics [] ''nvml''
               WARMUP_ROUNDS BENCHMARK_ITERS (emit (LoadModelIsolated config) w))
      else (Inr empty_metrics, w))"

definition run_config :: "env \<Rightarrow> TorchBenchModelConfig \<Rightarrow> bool \<Rightarrow> bool \<Rightarrow> run_output action" where
  "run_config E config as_dict dryrun w =
     (let w0 = emit (PrintRunningConfig config) w in
      if dryrun then (Inr (as_output as_dict empty_metrics), emit (Print ''[skip_by_dryrun]'') w0)
      else
        seq (take_accuracy E config (metrics config)) (\<lambda>(accuracy, required_metrics).
        seq (measure_rest E config required_metrics) (\<lambda>r.
        seq (ret (if ''accuracy'' \<in> set required_metrics then r\<lparr>accuracy := accuracy\<rparr> else r))
            (\<lambda>r. seq (effect (Print ''[done]'')) (\<lambda>_. ret (as_output as_dict r))))) w0)"

subsection \<open>Reading a trace\<close>

text \<open>
  What the theorems below observe of a run: the events it added, how many of them are
  calls of the callback, how long the calls that returned took, and whether the memory
  monitor is running after them.
\<close>

definition new_events :: "world \<Rightarrow> world \<Rightarrow> event list" where
  "new_events w w' = drop (length (trace w)) (trace w')"

fun is_call :: "event \<Rightarrow> bool" where
  "is_call (Called _) = True"
| "is_call _ = False"

definition invocations :: "event list \<Rightarrow> nat" where
  "invocations es = length (filter is_call es)"

fun durations :: "event list \<Rightarrow> int list" where
  "durations [] = []"
| "durations (Called (Returns dt) # es) = dt # durations es"
| "durations (_ # es) = durations es"

definition monitor_step :: "bool \<Rightarrow> event \<Rightarrow> bool" where
  "monitor_step running e =
     (if e = StartMonitor then True else if e = StopMonitor then False else running)"

definition monitor_running :: "event list \<Rightarrow> bool" where
  "monitor_running es = foldl monitor_step False es"

definition quiet :: "event list \<Rightarrow> bool" where
  "quiet es = (StartMonitor \<notin> set es \<and> StopMonitor \<notin> set es)"

definition probe_phase :: "event list \<Rightarrow> event list" where
  "probe_phase es = takeWhile (\<lambda>e. e \<noteq> StartMonitor) es"

definition measure_phase :: "event list \<Rightarrow> event list" where
  "measure_phase es =
     takeWhile (\<lambda>e. e \<noteq> StopMonitor) (drop 1 (dropWhile (\<lambda>e. e \<noteq> StartMonitor) es))"

definition never_raises :: "callback \<Rightarrow> bool" where
  "never_raises func = (\<forall>w. \<exists>dt. func w = Returns dt)"

text \<open>
  The world the callback sees when \<^verbatim>\<open>work_func\<close> calls it (on the device, after the
  first barrier), and a raise inside a loop of \<open>n\<close> passes of \<^verbatim>\<open>work_func\<close> that
  starts in world \<open>w\<close>: the passes before some pass \<open>k < n\<close> all return, and in the
  world they leave the callback raises.
\<close>

definition at_call :: "string \<Rightarrow> world \<Rightarrow> world" where
  "at_call device w = (if device = ''cuda'' then emit Synchronize w else w)"

definition raises_in_loop :: "callback \<Rightarrow> string \<Rightarrow> nat \<Rightarrow> world \<Rightarrow> string \<Rightarrow> bool" where
  "raises_in_loop func device n w msg =
     (\<exists>k<n. \<exists>wk. repeat k (work_func func device) w = (Inr (), wk)
                 \<and> func (at_call device wk) = Raises msg)"

subsection \<open>Sample inputs\<close>

text \<open>
  A callback whose calls take longer and longer (two milliseconds plus one for every
  event already in the trace), and the world at the start of a run.
\<close>

definition sample_func :: callback where
  "sample_func w = Returns (1000000 * (2 + int (length (trace w))))"

definition w0 :: world where
  "w0 = \<lparr>clock = 0, trace = []\<rparr>"

text \<open>
  Callbacks that take 3 ms and 20 ms a call, and one that returns once and raises from
  its second call on; collaborators that report fixed readings and load a fixed model.
\<close>

definition fast_func :: callback where
  "fast_func w = Returns 3000000"

definition slow_func :: callback where
  "slow_func w = Returns 20000000"

definition failing_func :: callback where
  "failing_func w =
     (if invocations (trace w) = 0 then Returns 1000000 else Raises ''out of memory'')"

definition sample_attrs :: model_attrs where
  "sample_attrs = \<lparr> invoke = slow_func, attr_device = ''cpu'', attr_batch_size = 4,
     attr_pt2_compilation_time = Some 7, attr_pt2_graph_breaks = Some 1,
     attr_ttfb = Some 9, attr_accuracy = Some ''pass'', worker_proc_pid = 77 \<rparr>"

definition sample_env :: env where
  "sample_env = \<lparr> calculate_gpu_peak_mem = (\<lambda>w. (Some ''0'', Some 512)),
     calculate_cpu_peak_mem = (\<lambda>w. Some 128),
     flop_counts_global = (\<lambda>w. [10, 20]),
     getpid = 4242,
     load_model_isolated = (\<lambda>config w. Inr (ModelTask sample_attrs)),
     load_model = (\<lambda>config w. Inr (BenchmarkModel sample_attrs)) \<rparr>"

text \<open>A configuration that asks for the accuracy check and nothing else.\<close>

definition sample_config :: TorchBenchModelConfig where
  "sample_config = \<lparr> name = ''resnet50'', extra_args = [''--bs'', ''4''],
     metrics = [''accuracy''] \<rparr>"

section \<open>scripts/userbenchmark/upload_s3_csv.py\<close>

subsection \<open>Compiled patterns\<close>

text \<open>
  The \<^verbatim>\<open>re\<close> module is a collaborator. What a compiled pattern is, and when it matches,
  is modelled for the regular core of the pattern language: a character, the dot (any
  character but a newline), alternation, concatenation and repetition. The parser from
  the pattern text is a parameter of the operation below.
\<close>

datatype regex =
    Nothing
  | Epsilon
  | Chr char
  | Dot
  | Alt regex regex
  | Cat regex regex
  | Star regex

text \<open>The set of strings a pattern describes.\<close>

definition conc :: "string set \<Rightarrow> string set \<Rightarrow> string set" where
  "conc A B = {xs @ ys | xs ys. xs \<in> A \<and> ys \<in> B}"

inductive_set star :: "string set \<Rightarrow> string set" for A :: "string set" where
  star_empty: "[] \<in> star A"
| star_more: "xs \<in> A \<Longrightarrow> ys \<in> star A \<Longrightarrow> xs @ ys \<in> star A"

fun lang :: "regex \<Rightarrow> string set" where
  "lang Nothing = {}"
| "lang Epsilon = {[]}"
| "lang (Chr c) = {[c]}"
| "lang Dot = {[c] | c. c \<noteq> CHR 0x0A}"
| "lang (Alt r s) = lang r \<union> lang s"
| "lang (Cat r s) = conc (lang r) (lang s)"
| "lang (Star r) = star (lang r)"

text \<open>
  \<^verbatim>\<open>pattern.match(string)\<close> succeeds when the pattern matches at the start of the
  string; the rest of the string is free. The matcher reads the string from the left and
  keeps the pattern of what may still follow.
\<close>

fun nullable :: "regex \<Rightarrow> bool" where
  "nullable Nothing = False"
| "nullable Epsilon = True"
| "nullable (Chr c) = False"
| "nullable Dot = False"
| "nullable (Alt r s) = (nullable r \<or> nullable s)"
| "nullable (Cat r s) = (nullable r \<and> nullable s)"
| "nullable (Star r) = True"

fun after :: "char \<Rightarrow> regex \<Rightarrow> regex" where
  "after a Nothing = Nothing"
| "after a Epsilon = Nothing"
| "after a (Chr c) = (if a = c then Epsilon else Nothing)"
| "after a Dot = (if a \<noteq> CHR 0x0A then Epsilon else Nothing)"
| "after a (Alt r s) = Alt (after a r) (after a s)"
| "after a (Cat r s) =
     (if nullable r then Alt (Cat (after a r) s) (after a s) else Cat (after a r) s)"
| "after a (Star r) = Cat (after a r) (Star r)"

fun re_match :: "regex \<Rightarrow> string \<Rightarrow> bool" where
  "re_match r [] = nullable r"
| "re_match r (c # cs) = (nullable r \<or> re_match (after c r) cs)"

subsection \<open>\<^verbatim>\<open>_get_files_to_upload\<close>\<close>

text \<open>
  \<^verbatim>\<open>
  def _get_files_to_upload(file_path: str, match_filename: str):
      filename_regex = re.compile(match_filename)
      return [ file_name for file_name in os.listdir(file_path)
               if filename_regex.match(file_name) ]
  \<close>
  \<^verbatim>\<open>re.compile\<close> and \<^verbatim>\<open>os.listdir\<close> are parameters; either may raise.
\<close>

definition get_files_to_upload ::
  "(string \<Rightarrow> error + regex) \<Rightarrow> (string \<Rightarrow> error + string list) \<Rightarrow> string \<Rightarrow> string
    \<Rightarrow> error + string list" where
  "get_files_to_upload re_compile listdir file_path match_filename =
     (case re_compile match_filename of
        Inl e \<Rightarrow> Inl e
      | Inr filename_regex \<Rightarrow>
          (case listdir file_path of
             Inl e \<Rightarrow> Inl e
           | Inr names \<Rightarrow> Inr (filter (re_match filename_regex) names)))"

text \<open>
  Sample inputs: a parser that knows the patterns \<^verbatim>\<open>foo.*\<close> and \<^verbatim>\<open>ba\<close>, and a
  directory.
\<close>

definition sample_compile :: "string \<Rightarrow> error + regex" where
  "sample_compile p =
     (if p = ''foo.*'' then Inr (Cat (Chr CHR ''f'') (Cat (Chr CHR ''o'') (Cat (Chr CHR ''o'') (Star Dot))))
      else if p = ''ba'' then Inr (Cat (Chr CHR ''b'') (Chr CHR ''a''))
      else Inl (BadPattern p))"

definition sample_listdir :: "string \<Rightarrow> error + string list" where
  "sample_listdir d =
     (if d = ''out'' then Inr [''foo.json'', ''bar.json'', ''xfoo.json'', ''baz.txt'']
      else Inl (FileNotFoundError d))"

definition matches_at_start :: "regex \<Rightarrow> string \<Rightarrow> bool" where
  "matches_at_start r file_name = (\<exists>p. prefix p file_name \<and> p \<in> lang r)"

section \<open>userbenchmark/torchao/upload.py: \<^verbatim>\<open>post_ci_process\<close>\<close>

subsection \<open>Rows and paths\<close>

text \<open>
  A row is a Python dict: keys in insertion order, each once. The values are the strings
  read from the file and the integer \<^verbatim>\<open>0\<close> that \<^verbatim>\<open>job_id\<close> and the environment
  defaults hold. \<^verbatim>\<open>row.update(...)\<close> overwrites a key in place and appends a new one.
\<close>

datatype cell = Str string | Num int

type_synonym row = "(string \<times> cell) list"

fun dict_set :: "string \<Rightarrow> cell \<Rightarrow> row \<Rightarrow> row" where
  "dict_set k v [] = [(k, v)]"
| "dict_set k v ((k', v') # kvs) =
     (if k' = k then (k, v) # kvs else (k', v') # dict_set k v kvs)"

definition dict_update :: "row \<Rightarrow> row \<Rightarrow> row" where
  "dict_update r kvs = foldl (\<lambda>acc (k, v). dict_set k v acc) r kvs"

text \<open>
  \<^verbatim>\<open>os.path.basename\<close> keeps what follows the last slash; \<^verbatim>\<open>os.path.splitext\<close> cuts
  at the last dot, unless only dots come before it.
\<close>

definition basename :: "string \<Rightarrow> string" where
  "basename p = rev (takeWhile (\<lambda>c. c \<noteq> CHR ''/'') (rev p))"

definition splitext_root :: "string \<Rightarrow> string" where
  "splitext_root p =
     (case dropWhile (\<lambda>c. c \<noteq> CHR ''.'') (rev p) of
        [] \<Rightarrow> p
      | dot # before \<Rightarrow> if \<exists>c \<in> set before. c \<noteq> CHR ''.'' then rev before else p)"

subsection \<open>Files and the csv module\<close>

text \<open>
  The collaborators: the process environment, the version string of \<^verbatim>\<open>torchao\<close>, and
  the \<^verbatim>\<open>csv\<close> module's parsing and formatting, all parameters. A file is opened for
  reading or for writing; \<^verbatim>\<open>open(path)\<close> without a mode opens it for reading, and a
  handle opened for reading refuses writes.
\<close>

record ci_env =
  environ :: "string \<rightharpoonup> string"
  torchao_version :: string
  dict_reader :: "string \<Rightarrow> row list"
  render_header :: "string list \<Rightarrow> string"
  render_row :: "string list \<Rightarrow> row \<Rightarrow> string"

record disk =
  files :: "string \<rightharpoonup> string"
  stdout :: "string list"

datatype file_mode = ReadMode | WriteMode

record file_handle =
  handle_path :: string
  handle_mode :: file_mode

definition open_file :: "string \<Rightarrow> file_mode \<Rightarrow> disk \<Rightarrow> (error + file_handle) \<times> disk" where
  "open_file path mode d =
     (case mode of
        ReadMode \<Rightarrow>
          (case files d path of
             None \<Rightarrow> (Inl (FileNotFoundError path), d)
           | Some content \<Rightarrow> (Inr \<lparr>handle_path = path, handle_mode = ReadMode\<rparr>, d))
      | WriteMode \<Rightarrow>
          (Inr \<lparr>handle_path = path, handle_mode = WriteMode\<rparr>,
           d\<lparr>files := (files d)(path \<mapsto> [])\<rparr>))"

definition read_text :: "file_handle \<Rightarrow> disk \<Rightarrow> string" where
  "read_text h d = (case files d (handle_path h) of None \<Rightarrow> [] | Some content \<Rightarrow> content)"

definition write_text :: "file_handle \<Rightarrow> string \<Rightarrow> disk \<Rightarrow> (error + unit) \<times> disk" where
  "write_text h text d =
     (case handle_mode h of
        ReadMode \<Rightarrow> (Inl (NotWritable (handle_path h)), d)
      | WriteMode \<Rightarrow>
          (Inr (), d\<lparr>files := (files d)(handle_path h \<mapsto> read_text h d @ text)\<rparr>))"

text \<open>
  \<^verbatim>\<open>csv.DictWriter(f, fieldnames, ...)\<close>: \<^verbatim>\<open>fieldnames\<close> is a required argument of the
  constructor, and a call without it is a \<^verbatim>\<open>TypeError\<close>.
\<close>

record dict_writer =
  writer_file :: file_handle
  writer_fieldnames :: "string list"

definition DictWriter :: "file_handle \<Rightarrow> string list option \<Rightarrow> error + dict_writer" where
  "DictWriter f fieldnames =
     (case fieldnames of
        None \<Rightarrow> Inl MissingFieldnames
      | Some names \<Rightarrow> Inr \<lparr>writer_file = f, writer_fieldnames = names\<rparr>)"

subsection \<open>\<^verbatim>\<open>post_ci_process\<close>\<close>

text \<open>\<^verbatim>\<open>os.environ.get(key, 0)\<close>.\<close>

definition environ_get :: "ci_env \<Rightarrow> string \<Rightarrow> cell" where
  "environ_get E key = (case environ E key of None \<Rightarrow> Num 0 | Some v \<Rightarrow> Str v)"

text \<open>Lines 21 to 47: the nine columns every row is updated with.\<close>

definition decorate :: "ci_env \<Rightarrow> string \<Rightarrow> string \<Rightarrow> row \<Rightarrow> row" where
  "decorate E path modelset r =
     dict_update r
       [(''workflow_id'', environ_get E ''WORKFLOW_RUN_ID''),
        (''run_attempt'', environ_get E ''WORKFLOW_RUN_ATTEMPT''),
        (''test_name'', Str (''torchao_'' @ modelset @ ''_perf'')),
        (''runner'', Str ''gcp_a100''),
        (''job_id'', Num 0),
        (''filename'', Str (splitext_root (basename path))),
        (''head_repo'', Str ''pytorch/ao''),
        (''head_branch'', Str ''main''),
        (''head_sha'', Str (torchao_version E))]"

text \<open>
  Lines 54 to 58: the first row sets the field names and writes the header, every row is
  written.
\<close>

fun write_rows :: "ci_env \<Rightarrow> dict_writer \<Rightarrow> bool \<Rightarrow> row list \<Rightarrow> disk \<Rightarrow> (error + unit) \<times> disk" where
  "write_rows E writer first [] d = (Inr (), d)"
| "write_rows E writer first (r # rows) d =
     (let writer' = (if first then writer\<lparr>writer_fieldnames := map fst r\<rparr> else writer) in
      case (if first
            then write_text (writer_file writer') (render_header E (writer_fieldnames writer')) d
            else (Inr (), d)) of
        (Inl e, d1) \<Rightarrow> (Inl e, d1)
      | (Inr _, d1) \<Rightarrow>
          (case write_text (writer_file writer')
                  (render_row E (writer_fieldnames writer') r) d1 of
             (Inl e, d2) \<Rightarrow> (Inl e, d2)
           | (Inr _, d2) \<Rightarrow> write_rows E writer' False rows d2))"

text \<open>
  The body of the loop over \<^verbatim>\<open>output_files\<close>. Both \<^verbatim>\<open>open(path)\<close> calls are without a
  mode, and \<^verbatim>\<open>csv.DictWriter(csvfile)\<close> is without field names.
\<close>

definition process_file :: "ci_env \<Rightarrow> string \<Rightarrow> disk \<Rightarrow> (error + unit) \<times> disk" where
  "process_file E path d =
     (case get_model_set path of
        Inl e \<Rightarrow> (Inl e, d)
      | Inr modelset \<Rightarrow>
          (let d1 = d\<lparr>stdout := stdout d @ [''Processing file '' @ path @ '' '']\<rparr> in
           case open_file path ReadMode d1 of
             (Inl e, d2) \<Rightarrow> (Inl e, d2)
           | (Inr csvfile, d2) \<Rightarrow>
               (let perf_stats =
                      map (decorate E path modelset) (dict_reader E (read_text csvfile d2)) in
                case open_file path ReadMode d2 of
                  (Inl e, d3) \<Rightarrow> (Inl e, d3)
                | (Inr csvfile, d3) \<Rightarrow>
                    (case DictWriter csvfile None of
                       Inl e \<Rightarrow> (Inl e, d3)
                     | Inr writer \<Rightarrow> write_rows E writer True perf_stats d3))))"

fun post_ci_process :: "ci_env \<Rightarrow> string list \<Rightarrow> disk \<Rightarrow> (error + unit) \<times> disk" where
  "post_ci_process E [] d = (Inr (), d)"
| "post_ci_process E (path # output_files) d =
     (case process_file E path d of
        (Inl e, d') \<Rightarrow> (Inl e, d')
      | (Inr _, d') \<Rightarrow> post_ci_process E output_files d')"

text \<open>
  A sample run: one result file of the torchbench suite with one row, in an environment
  that sets the workflow run id.
\<close>

definition sample_ci_env :: ci_env where
  "sample_ci_env = \<lparr> environ = [''WORKFLOW_RUN_ID'' \<mapsto> ''9001''],
     torchao_version = ''0.4.0'',
     dict_reader = (\<lambda>text. [[(''name'', Str ''resnet50''), (''speedup'', Str ''1.5'')]]),
     render_header = (\<lambda>names. concat names),
     render_row = (\<lambda>names r. concat names) \<rparr>"

definition sample_disk :: disk where
  "sample_disk = \<lparr> files = [''out/torchbench_perf.csv'' \<mapsto> ''name,speedup''], stdout = [] \<rparr>"

section \<open>Properties of upload.py\<close>

lemma str_in_sublist: "str_in needle hay = sublist needle hay"
  by (induction hay) (simp_all add: sublist_Cons_right)

text \<open>
  Claim C4, as the code has it. The first test looks for \<^verbatim>\<open>timm_models\<close>, not for
  \<^verbatim>\<open>timm\<close>, and the three tests run in order, so an earlier category wins when a
  filename contains several: the result is \<^verbatim>\<open>timm\<close> when the filename contains
  \<^verbatim>\<open>timm_models\<close>; otherwise \<^verbatim>\<open>huggingface\<close> when it contains that word; otherwise
  \<^verbatim>\<open>torchbench\<close> when it contains that word; otherwise the unknown-model-set error,
  carrying the filename.
\<close>

theorem get_model_set_by_first_match:
  "get_model_set filename =
     (if sublist ''timm_models'' filename then Inr ''timm''
      else if sublist ''huggingface'' filename then Inr ''huggingface''
      else if sublist ''torchbench'' filename then Inr ''torchbench''
      else Inl (UnknownModelSet filename))"
  by (simp add: get_model_set_def str_in_sublist)

theorem get_model_set_by_first_match_witness:
  "get_model_set ''out/timm_models_perf.csv'' = Inr ''timm''
   \<and> get_model_set ''huggingface_timm.csv'' = Inr ''huggingface''
   \<and> get_model_set ''torchbench.csv'' = Inr ''torchbench''
   \<and> get_model_set ''notes.txt'' = Inl (UnknownModelSet ''notes.txt'')"
  using get_model_set_by_first_match [of "''out/timm_models_perf.csv''"]
        get_model_set_by_first_match [of "''huggingface_timm.csv''"]
        get_model_set_by_first_match [of "''torchbench.csv''"]
        get_model_set_by_first_match [of "''notes.txt''"]
  by (simp add: str_in_sublist [symmetric])

text \<open>
  The claim as the specification words it fails on two inputs: \<^verbatim>\<open>timm.csv\<close> contains
  \<^verbatim>\<open>timm\<close> and is rejected, and \<^verbatim>\<open>torchbench_huggingface.csv\<close> contains
  \<^verbatim>\<open>torchbench\<close> and is classified as \<^verbatim>\<open>huggingface\<close>.
\<close>

theorem get_model_set_counterexample:
  "sublist ''timm'' ''timm.csv''
   \<and> get_model_set ''timm.csv'' = Inl (UnknownModelSet ''timm.csv'')
   \<and> sublist ''torchbench'' ''torchbench_huggingface.csv''
   \<and> get_model_set ''torchbench_huggingface.csv'' = Inr ''huggingface''"
  by (simp add: get_model_set_def str_in_sublist [symmetric])

section \<open>Properties of metrics.py\<close>

subsection \<open>Traces and single calls\<close>

lemma trace_emit [simp]: "trace (emit e w) = trace w @ [e]"
  by (simp add: emit_def)

lemma clock_emit [simp]: "clock (emit e w) = clock w"
  by (simp add: emit_def)

lemma invocations_append [simp]: "invocations (xs @ ys) = invocations xs + invocations ys"
  by (simp add: invocations_def)

lemma invocations_Nil [simp]: "invocations [] = 0"
  by (simp add: invocations_def)

lemma invocations_Cons [simp]: "invocations (e # es) = (if is_call e then 1 else 0) + invocations es"
  by (simp add: invocations_def)

lemma durations_append [simp]: "durations (xs @ ys) = durations xs @ durations ys"
  by (induction xs rule: durations.induct) simp_all

lemma new_events_append [simp]: "trace w' = trace w @ es \<Longrightarrow> new_events w w' = es"
  by (simp add: new_events_def)

lemma call_returns:
  assumes "call func w = (Inr u, w')"
  shows "\<exists>dt. func w = Returns dt \<and> trace w' = trace w @ [Called (Returns dt)]
              \<and> clock w' = clock w + dt"
  using assms by (auto simp: call_def split: outcome.splits)

lemma call_raises:
  assumes "call func w = (Inl e, w')"
  shows "\<exists>msg. func w = Raises msg \<and> e = Raised msg \<and> trace w' = trace w @ [Called (Raises msg)]"
  using assms by (auto simp: call_def split: outcome.splits)

lemma call_total: "never_raises func \<Longrightarrow> \<exists>w'. call func w = (Inr (), w')"
  unfolding never_raises_def call_def
  by (metis (mono_tags, lifting) outcome.simps(5))

lemma warmup_returns:
  "repeat k (call func) w = (Inr u, w') \<Longrightarrow>
     \<exists>es. trace w' = trace w @ es \<and> invocations es = k \<and> length (durations es) = k"
proof (induction k arbitrary: w)
  case 0
  then show ?case by simp
next
  case (Suc k)
  from Suc.prems obtain w1 where c: "call func w = (Inr (), w1)"
    and r: "repeat k (call func) w1 = (Inr u, w')"
    by (auto split: prod.splits sum.splits)
  from call_returns [OF c] obtain dt where t1: "trace w1 = trace w @ [Called (Returns dt)]"
    by blast
  from Suc.IH [OF r] obtain es where "trace w' = trace w1 @ es" "invocations es = k"
    "length (durations es) = k" by blast
  with t1 have "trace w' = trace w @ (Called (Returns dt) # es)
     \<and> invocations (Called (Returns dt) # es) = Suc k
     \<and> length (durations (Called (Returns dt) # es)) = Suc k" by simp
  then show ?case by blast
qed

lemma repeat_total:
  assumes "\<And>w. \<exists>w'. body w = (Inr (), w')"
  shows "\<exists>w'. repeat k body w = (Inr (), w')"
proof (induction k arbitrary: w)
  case 0
  then show ?case by simp
next
  case (Suc k)
  obtain w1 where "body w = (Inr (), w1)" using assms by blast
  with Suc.IH [of w1] show ?case by auto
qed

lemma timed_call_returns:
  assumes "timed_call func device w = (Inr lat, w')"
  shows "\<exists>es dt. trace w' = trace w @ es \<and> invocations es = 1 \<and> durations es = [dt]
                 \<and> lat = real_of_int dt / NANOSECONDS_PER_MILLISECONDS"
proof (cases "device = ''cuda''")
  case True
  with assms obtain w2 where c: "call func (emit Synchronize w) = (Inr (), w2)"
    and w': "w' = emit Synchronize w2"
    and lat: "lat = real_of_int (clock w2 - clock w) / NANOSECONDS_PER_MILLISECONDS"
    by (auto simp: timed_call_def Let_def time_ns_def split: prod.splits sum.splits)
  from call_returns [OF c] obtain dt where
    "trace w2 = trace w @ [Synchronize, Called (Returns dt)]" "clock w2 = clock w + dt"
    by auto
  with w' lat have "trace w' = trace w @ [Synchronize, Called (Returns dt), Synchronize]
     \<and> invocations [Synchronize, Called (Returns dt), Synchronize] = 1
     \<and> durations [Synchronize, Called (Returns dt), Synchronize] = [dt]
     \<and> lat = real_of_int dt / NANOSECONDS_PER_MILLISECONDS" by simp
  then show ?thesis by blast
next
  case False
  with assms have c: "call func w = (Inr (), w')"
    and lat: "lat = real_of_int (clock w' - clock w) / NANOSECONDS_PER_MILLISECONDS"
    by (auto simp: timed_call_def Let_def time_ns_def split: prod.splits sum.splits)
  from call_returns [OF c] obtain dt where
    "trace w' = trace w @ [Called (Returns dt)]" "clock w' = clock w + dt"
    by auto
  with lat have "trace w' = trace w @ [Called (Returns dt)]
     \<and> invocations [Called (Returns dt)] = 1
     \<and> durations [Called (Returns dt)] = [dt]
     \<and> lat = real_of_int dt / NANOSECONDS_PER_MILLISECONDS" by simp
  then show ?thesis by blast
qed

lemma timed_call_total:
  assumes "never_raises func"
  shows "\<exists>lat w'. timed_call func device w = (Inr lat, w')"
proof -
  obtain w1 where "call func (emit Synchronize w) = (Inr (), w1)"
    using call_total [OF assms] by blast
  moreover obtain w2 where "call func w = (Inr (), w2)"
    using call_total [OF assms] by blast
  ultimately show ?thesis by (simp add: timed_call_def Let_def)
qed

lemma timed_loop_returns:
  "timed_loop func device k acc w = (Inr lats, w') \<Longrightarrow>
     \<exists>es. trace w' = trace w @ es \<and> invocations es = k
         \<and> lats = acc @ map (\<lambda>dt. real_of_int dt / NANOSECONDS_PER_MILLISECONDS) (durations es)
         \<and> length (durations es) = k"
proof (induction k arbitrary: w acc)
  case 0
  then show ?case by simp
next
  case (Suc k)
  from Suc.prems obtain lat w1 where c: "timed_call func device w = (Inr lat, w1)"
    and r: "timed_loop func device k (acc @ [lat]) w1 = (Inr lats, w')"
    by (auto split: prod.splits sum.splits)
  from timed_call_returns [OF c] obtain es1 dt where 1: "trace w1 = trace w @ es1"
    "invocations es1 = 1" "durations es1 = [dt]"
    "lat = real_of_int dt / NANOSECONDS_PER_MILLISECONDS" by blast
  from Suc.IH [OF r] obtain es where 2: "trace w' = trace w1 @ es" "invocations es = k"
    "lats = (acc @ [lat]) @ map (\<lambda>dt. real_of_int dt / NANOSECONDS_PER_MILLISECONDS) (durations es)"
    "length (durations es) = k" by blast
  from 1 2 have "trace w' = trace w @ (es1 @ es) \<and> invocations (es1 @ es) = Suc k
     \<and> lats = acc @ map (\<lambda>dt. real_of_int dt / NANOSECONDS_PER_MILLISECONDS) (durations (es1 @ es))
     \<and> length (durations (es1 @ es)) = Suc k" by simp
  then show ?case by blast
qed

lemma timed_loop_total:
  assumes "never_raises func"
  shows "\<exists>lats w'. timed_loop func device k acc w = (Inr lats, w')"
proof (induction k arbitrary: w acc)
  case 0
  then show ?case by simp
next
  case (Suc k)
  obtain lat w1 where "timed_call func device w = (Inr lat, w1)"
    using timed_call_total [OF assms] by blast
  with Suc.IH [of "acc @ [lat]" w1] show ?case by auto
qed

text \<open>
  Claim C8. For a warmup count and an iteration count that are not negative: a callback
  that never raises makes \<^verbatim>\<open>get_latencies\<close> return, and whenever it returns, the
  callback was invoked exactly \<^verbatim>\<open>nwarmup + num_iter\<close> times and the result has
  \<^verbatim>\<open>num_iter\<close> entries: the durations of the calls after the warmup, in the order
  they ran, in milliseconds.
\<close>

theorem get_latencies_calls_and_length:
  assumes "0 \<le> nwarmup" and "0 \<le> num_iter"
  shows "(never_raises func \<longrightarrow> (\<exists>lats w'. get_latencies func device nwarmup num_iter w = (Inr lats, w')))
    \<and> (get_latencies func device nwarmup num_iter w = (Inr lats, w') \<longrightarrow>
         invocations (new_events w w') = nat (nwarmup + num_iter)
       \<and> length lats = nat num_iter
       \<and> lats = map (\<lambda>dt. real_of_int dt / NANOSECONDS_PER_MILLISECONDS)
                    (drop (nat nwarmup) (durations (new_events w w'))))"
proof (intro conjI impI)
  assume nr: "never_raises func"
  obtain w1 where "repeat (nat nwarmup) (call func) w = (Inr (), w1)"
    using repeat_total [of "call func"] call_total [OF nr] by blast
  moreover obtain lats w2 where "timed_loop func device (nat num_iter) [] w1 = (Inr lats, w2)"
    using timed_loop_total [OF nr] by blast
  ultimately show "\<exists>lats w'. get_latencies func device nwarmup num_iter w = (Inr lats, w')"
    by (simp add: get_latencies_def seq_def)
next
  assume run: "get_latencies func device nwarmup num_iter w = (Inr lats, w')"
  then obtain w1 where a: "repeat (nat nwarmup) (call func) w = (Inr (), w1)"
    and b: "timed_loop func device (nat num_iter) [] w1 = (Inr lats, w')"
    by (auto simp: get_latencies_def seq_def split: prod.splits sum.splits)
  from warmup_returns [OF a] obtain es1 where 1: "trace w1 = trace w @ es1"
    "invocations es1 = nat nwarmup" "length (durations es1) = nat nwarmup" by blast
  from timed_loop_returns [OF b] obtain es2 where 2: "trace w' = trace w1 @ es2"
    "invocations es2 = nat num_iter"
    "lats = [] @ map (\<lambda>dt. real_of_int dt / NANOSECONDS_PER_MILLISECONDS) (durations es2)"
    "length (durations es2) = nat num_iter" by blast
  from 1 2 have ne: "new_events w w' = es1 @ es2" by simp
  show "invocations (new_events w w') = nat (nwarmup + num_iter)"
    using ne 1 2 assms by (simp add: nat_add_distrib)
  show "length lats = nat num_iter" using 2 by simp
  show "lats = map (\<lambda>dt. real_of_int dt / NANOSECONDS_PER_MILLISECONDS)
                    (drop (nat nwarmup) (durations (new_events w w')))"
    using ne 1 2 by simp
qed

theorem get_latencies_calls_and_length_witness:
  "never_raises sample_func \<and> (0::int) \<le> 1 \<and> (0::int) \<le> 2
   \<and> (\<exists>w'. get_latencies sample_func ''cpu'' 1 2 w0 = (Inr [3, 4], w')
         \<and> invocations (new_events w0 w') = 3
         \<and> durations (new_events w0 w') = [2000000, 3000000, 4000000])"
proof -
  let ?w = "\<lparr>clock = 9000000, trace = [Called (Returns 2000000), Called (Returns 3000000),
             Called (Returns 4000000)]\<rparr>"
  have run: "get_latencies sample_func ''cpu'' 1 2 w0 = (Inr [3, 4], ?w)"
    by (simp add: get_latencies_def seq_def call_def sample_func_def w0_def timed_call_def
        emit_def time_ns_def NANOSECONDS_PER_MILLISECONDS_def eval_nat_numeral)
  have "invocations (new_events w0 ?w) = nat (1 + 2)"
    using get_latencies_calls_and_length [of 1 2 sample_func "''cpu''" w0 "[3, 4]" ?w] run
    by simp
  moreover have "durations (new_events w0 ?w) = [2000000, 3000000, 4000000]"
    by (simp add: new_events_def w0_def)
  ultimately show ?thesis
    using run by (simp add: never_raises_def sample_func_def)
qed

subsection \<open>The peak-memory sampler, step by step\<close>

lemma quiet_Nil [simp]: "quiet []"
  by (simp add: quiet_def)

lemma quiet_Cons [simp]: "quiet (e # es) = (e \<noteq> StartMonitor \<and> e \<noteq> StopMonitor \<and> quiet es)"
  by (auto simp: quiet_def)

lemma quiet_append [simp]: "quiet (xs @ ys) = (quiet xs \<and> quiet ys)"
  by (auto simp: quiet_def)

lemma quiet_monitor: "quiet es \<Longrightarrow> foldl monitor_step b es = b"
  by (induction es arbitrary: b) (simp_all add: monitor_step_def)

lemma work_func_returns:
  assumes "work_func func device w = (Inr u, w')"
  shows "\<exists>es dt. trace w' = trace w @ es \<and> invocations es = 1 \<and> durations es = [dt]
                 \<and> clock w' = clock w + dt \<and> quiet es"
proof (cases "device = ''cuda''")
  case True
  with assms obtain w2 where c: "call func (emit Synchronize w) = (Inr (), w2)"
    and w': "w' = emit Synchronize w2"
    by (auto simp: work_func_def seq_def effect_def split: prod.splits sum.splits)
  from call_returns [OF c] obtain dt where
    "trace w2 = trace w @ [Synchronize, Called (Returns dt)]" "clock w2 = clock w + dt"
    by auto
  with w' have "trace w' = trace w @ [Synchronize, Called (Returns dt), Synchronize]
     \<and> invocations [Synchronize, Called (Returns dt), Synchronize] = 1
     \<and> durations [Synchronize, Called (Returns dt), Synchronize] = [dt]
     \<and> clock w' = clock w + dt
     \<and> quiet [Synchronize, Called (Returns dt), Synchronize]" by simp
  then show ?thesis by blast
next
  case False
  with assms have c: "call func w = (Inr u, w')"
    by (simp add: work_func_def)
  from call_returns [OF c] obtain dt where
    "trace w' = trace w @ [Called (Returns dt)]" "clock w' = clock w + dt"
    by auto
  then have "trace w' = trace w @ [Called (Returns dt)]
     \<and> invocations [Called (Returns dt)] = 1
     \<and> durations [Called (Returns dt)] = [dt]
     \<and> clock w' = clock w + dt \<and> quiet [Called (Returns dt)]" by simp
  then show ?thesis by blast
qed

lemma work_func_raises:
  assumes "work_func func device w = (Inl e, w')"
  shows "\<exists>es msg. trace w' = trace w @ es \<and> e = Raised msg \<and> quiet es
                  \<and> es \<noteq> [] \<and> last es = Called (Raises msg)"
proof (cases "device = ''cuda''")
  case True
  with assms have c: "call func (emit Synchronize w) = (Inl e, w')"
    by (auto simp: work_func_def seq_def effect_def split: prod.splits sum.splits)
  from call_raises [OF c] obtain msg where
    "trace w' = trace w @ [Synchronize, Called (Raises msg)]" "e = Raised msg"
    by auto
  then have "trace w' = trace w @ [Synchronize, Called (Raises msg)] \<and> e = Raised msg
     \<and> quiet [Synchronize, Called (Raises msg)] \<and> [Synchronize, Called (Raises msg)] \<noteq> []
     \<and> last [Synchronize, Called (Raises msg)] = Called (Raises msg)" by simp
  then show ?thesis by blast
next
  case False
  with assms have c: "call func w = (Inl e, w')"
    by (simp add: work_func_def)
  from call_raises [OF c] obtain msg where
    "trace w' = trace w @ [Called (Raises msg)]" "e = Raised msg"
    by auto
  then have "trace w' = trace w @ [Called (Raises msg)] \<and> e = Raised msg
     \<and> quiet [Called (Raises msg)] \<and> [Called (Raises msg)] \<noteq> []
     \<and> last [Called (Raises msg)] = Called (Raises msg)" by simp
  then show ?thesis by blast
qed

lemma work_func_total:
  assumes "never_raises func"
  shows "\<exists>w'. work_func func device w = (Inr (), w')"
proof -
  obtain w1 where "call func (emit Synchronize w) = (Inr (), w1)"
    using call_total [OF assms] by blast
  moreover obtain w2 where "call func w = (Inr (), w2)"
    using call_total [OF assms] by blast
  ultimately show ?thesis by (simp add: work_func_def seq_def effect_def)
qed

lemma measure_loop_returns:
  "repeat k (work_func func device) w = (Inr u, w') \<Longrightarrow>
     \<exists>es. trace w' = trace w @ es \<and> invocations es = k \<and> quiet es"
proof (induction k arbitrary: w)
  case 0
  then have "trace w' = trace w @ [] \<and> invocations [] = 0 \<and> quiet []" by simp
  then show ?case by blast
next
  case (Suc k)
  from Suc.prems obtain w1 where c: "work_func func device w = (Inr (), w1)"
    and r: "repeat k (work_func func device) w1 = (Inr u, w')"
    by (auto split: prod.splits sum.splits)
  from work_func_returns [OF c] obtain es1 where 1: "trace w1 = trace w @ es1"
    "invocations es1 = 1" "quiet es1" by blast
  from Suc.IH [OF r] obtain es where "trace w' = trace w1 @ es" "invocations es = k"
    "quiet es" by blast
  with 1 have "trace w' = trace w @ (es1 @ es) \<and> invocations (es1 @ es) = Suc k
     \<and> quiet (es1 @ es)" by simp
  then show ?case by blast
qed

lemma measure_loop_raises:
  "repeat k (work_func func device) w = (Inl e, w') \<Longrightarrow>
     \<exists>es msg. trace w' = trace w @ es \<and> e = Raised msg \<and> quiet es
             \<and> es \<noteq> [] \<and> last es = Called (Raises msg)"
proof (induction k arbitrary: w)
  case 0
  then show ?case by simp
next
  case (Suc k)
  show ?case
  proof (cases "work_func func device w")
    case (Pair res w1)
    show ?thesis
    proof (cases res)
      case (Inl e1)
      with Pair Suc.prems have "work_func func device w = (Inl e, w')" by simp
      from work_func_raises [OF this] show ?thesis .
    next
      case (Inr u)
      with Pair Suc.prems have r: "repeat k (work_func func device) w1 = (Inl e, w')" by simp
      from Pair Inr have c: "work_func func device w = (Inr u, w1)" by simp
      from work_func_returns [OF c] obtain es1 where 1: "trace w1 = trace w @ es1" "quiet es1"
        by blast
      from Suc.IH [OF r] obtain es msg where "trace w' = trace w1 @ es" "e = Raised msg"
        "quiet es" "es \<noteq> []" "last es = Called (Raises msg)" by blast
      with 1 have "trace w' = trace w @ (es1 @ es) \<and> e = Raised msg \<and> quiet (es1 @ es)
        \<and> es1 @ es \<noteq> [] \<and> last (es1 @ es) = Called (Raises msg)" by simp
      then show ?thesis by blast
    qed
  qed
qed

lemma collect_peaks_total:
  "\<exists>r w' es. collect_peaks E export_metrics_file metrics_needed w = (Inr r, w')
     \<and> trace w' = trace w @ es \<and> quiet es"
proof -
  have "\<exists>es. trace (snd (collect_peaks E export_metrics_file metrics_needed w)) = trace w @ es
         \<and> quiet es"
    by (simp add: collect_peaks_def Let_def)
  moreover have "\<exists>r. fst (collect_peaks E export_metrics_file metrics_needed w) = Inr r"
    by (simp add: collect_peaks_def Let_def split: prod.splits)
  ultimately show ?thesis by (metis prod.collapse)
qed

lemma needed_filter_empty:
  "(filter (\<lambda>m. m \<in> set [''cpu_peak_mem'', ''gpu_peak_mem'']) ms = [])
     = (''cpu_peak_mem'' \<notin> set ms \<and> ''gpu_peak_mem'' \<notin> set ms)"
  by (auto simp: filter_empty_conv)

lemma get_peak_memory_rejects:
  assumes "''cpu_peak_mem'' \<notin> set ms" and "''gpu_peak_mem'' \<notin> set ms"
  shows "get_peak_memory E func device num_iter emf ms backend pid w
           = (Inl (MetricsNeededEmpty ms), w)"
  using assms needed_filter_empty [of ms] by (simp add: get_peak_memory_def)

lemma get_peak_memory_unfold:
  assumes "''cpu_peak_mem'' \<in> set ms \<or> ''gpu_peak_mem'' \<in> set ms"
  shows "get_peak_memory E func device num_iter emf ms backend pid w =
    (case work_func func device
            (emit (NewAnalyzer emf (filter (\<lambda>m. m \<in> set [''cpu_peak_mem'', ''gpu_peak_mem'']) ms)
                     backend pid) w) of
       (Inl e, w2) \<Rightarrow> (Inl e, w2)
     | (Inr u, w2) \<Rightarrow>
        (case repeat (if clock w2 - clock w < 15000000 then 15 else 2) (work_func func device)
                (emit StartMonitor w2) of
           (Inl e, w4) \<Rightarrow> (Inl e, w4)
         | (Inr u, w4) \<Rightarrow> collect_peaks E emf ms (emit Aggregate (emit StopMonitor w4))))"
proof -
  have ne: "filter (\<lambda>m. m \<in> set [''cpu_peak_mem'', ''gpu_peak_mem'']) ms \<noteq> []"
    using assms needed_filter_empty [of ms] by blast
  have n: "\<And>d::int. nat (if real_of_int d < 15 * NANOSECONDS_PER_MILLISECONDS
                          then BENCHMARK_ITERS else MEMPROF_ITER)
                   = (if d < 15000000 then 15 else 2)"
    by (simp add: NANOSECONDS_PER_MILLISECONDS_def BENCHMARK_ITERS_def MEMPROF_ITER_def)
  show ?thesis
    unfolding get_peak_memory_def Let_def time_ns_def clock_emit n
    using ne by (simp only: if_False)
qed

lemma collect_peaks_no_error:
  "collect_peaks E emf ms W \<noteq> (Inl e, w')"
  by (simp add: collect_peaks_def Let_def split: prod.splits)

lemma get_peak_memory_returns:
  assumes "get_peak_memory E func device num_iter emf ms backend pid w = (Inr r, w')"
  shows "\<exists>pre loop rest dt.
           new_events w w' = pre @ StartMonitor # loop @ StopMonitor # rest
         \<and> quiet pre \<and> invocations pre = 1 \<and> durations pre = [dt]
         \<and> quiet loop \<and> invocations loop = (if dt < 15000000 then 15 else 2)
         \<and> quiet rest"
proof -
  have needed: "''cpu_peak_mem'' \<in> set ms \<or> ''gpu_peak_mem'' \<in> set ms"
    using assms get_peak_memory_rejects [of ms E func device num_iter emf backend pid w]
    by auto
  let ?a = "NewAnalyzer emf (filter (\<lambda>m. m \<in> set [''cpu_peak_mem'', ''gpu_peak_mem'']) ms)
              backend pid"
  from assms obtain w2 w4 where
    p: "work_func func device (emit ?a w) = (Inr (), w2)" and
    l: "repeat (if clock w2 - clock w < 15000000 then 15 else 2) (work_func func device)
          (emit StartMonitor w2) = (Inr (), w4)" and
    c: "collect_peaks E emf ms (emit Aggregate (emit StopMonitor w4)) = (Inr r, w')"
    unfolding get_peak_memory_unfold [OF needed]
    by (auto split: prod.splits sum.splits)
  from work_func_returns [OF p] obtain es1 dt where 1: "trace w2 = trace w @ ?a # es1"
    "invocations es1 = 1" "durations es1 = [dt]" "clock w2 = clock w + dt" "quiet es1"
    by auto
  from measure_loop_returns [OF l] obtain es2 where 2:
    "trace w4 = trace w2 @ StartMonitor # es2"
    "invocations es2 = (if clock w2 - clock w < 15000000 then 15 else 2)" "quiet es2"
    by auto
  from collect_peaks_total [of E emf ms "emit Aggregate (emit StopMonitor w4)"] c
  obtain es3 where 3: "trace w' = trace w4 @ StopMonitor # Aggregate # es3" "quiet es3"
    by auto
  from 1 2 3 have "new_events w w' = (?a # es1) @ StartMonitor # es2 @ StopMonitor # (Aggregate # es3)
     \<and> quiet (?a # es1) \<and> invocations (?a # es1) = 1 \<and> durations (?a # es1) = [dt]
     \<and> quiet es2 \<and> invocations es2 = (if dt < 15000000 then 15 else 2)
     \<and> quiet (Aggregate # es3)"
    by (simp add: new_events_def)
  then show ?thesis by blast
qed

lemma get_peak_memory_fails:
  assumes "get_peak_memory E func device num_iter emf ms backend pid w = (Inl e, w')"
  shows "(e = MetricsNeededEmpty ms \<and> w' = w
            \<and> ''cpu_peak_mem'' \<notin> set ms \<and> ''gpu_peak_mem'' \<notin> set ms)
       \<or> (\<exists>pre msg. e = Raised msg \<and> new_events w w' = pre \<and> quiet pre
             \<and> (''cpu_peak_mem'' \<in> set ms \<or> ''gpu_peak_mem'' \<in> set ms))
       \<or> (\<exists>pre loop msg. e = Raised msg \<and> new_events w w' = pre @ StartMonitor # loop
             \<and> quiet pre \<and> quiet loop \<and> loop \<noteq> [] \<and> last loop = Called (Raises msg)
             \<and> (''cpu_peak_mem'' \<in> set ms \<or> ''gpu_peak_mem'' \<in> set ms))"
proof (cases "''cpu_peak_mem'' \<in> set ms \<or> ''gpu_peak_mem'' \<in> set ms")
  case False
  with assms get_peak_memory_rejects [of ms E func device num_iter emf backend pid w]
  show ?thesis by simp
next
  case needed: True
  let ?a = "NewAnalyzer emf (filter (\<lambda>m. m \<in> set [''cpu_peak_mem'', ''gpu_peak_mem'']) ms)
              backend pid"
  show ?thesis
  proof (cases "work_func func device (emit ?a w)")
    case (Pair res w2)
    show ?thesis
    proof (cases res)
      case (Inl e1)
      with Pair assms have p: "work_func func device (emit ?a w) = (Inl e, w')"
        unfolding get_peak_memory_unfold [OF needed] by simp
      from work_func_raises [OF p] obtain es msg where
        "trace w' = trace w @ ?a # es" "e = Raised msg" "quiet es" by auto
      then have "e = Raised msg \<and> new_events w w' = ?a # es \<and> quiet (?a # es)"
        by (simp add: new_events_def)
      with needed show ?thesis by blast
    next
      case (Inr u)
      with Pair have p: "work_func func device (emit ?a w) = (Inr u, w2)" by simp
      from work_func_returns [OF p] obtain es1 where 1: "trace w2 = trace w @ ?a # es1"
        "quiet es1" by auto
      from Pair Inr assms have
        l: "repeat (if clock w2 - clock w < 15000000 then 15 else 2) (work_func func device)
              (emit StartMonitor w2) = (Inl e, w')"
        unfolding get_peak_memory_unfold [OF needed]
        by (auto simp: collect_peaks_no_error split: prod.splits sum.splits if_splits)
      from measure_loop_raises [OF l] obtain es2 msg where 2:
        "trace w' = trace w2 @ StartMonitor # es2" "e = Raised msg" "quiet es2"
        "es2 \<noteq> []" "last es2 = Called (Raises msg)" by auto
      from 1 2 have "e = Raised msg \<and> new_events w w' = (?a # es1) @ StartMonitor # es2
         \<and> quiet (?a # es1) \<and> quiet es2 \<and> es2 \<noteq> [] \<and> last es2 = Called (Raises msg)"
        by (simp add: new_events_def)
      with needed show ?thesis by blast
    qed
  qed
qed

lemma get_peak_memory_total:
  assumes "never_raises func"
    and "''cpu_peak_mem'' \<in> set ms \<or> ''gpu_peak_mem'' \<in> set ms"
  shows "\<exists>r w'. get_peak_memory E func device num_iter emf ms backend pid w = (Inr r, w')"
proof -
  let ?a = "NewAnalyzer emf (filter (\<lambda>m. m \<in> set [''cpu_peak_mem'', ''gpu_peak_mem'']) ms)
              backend pid"
  obtain w2 where p: "work_func func device (emit ?a w) = (Inr (), w2)"
    using work_func_total [OF assms(1)] by blast
  obtain w4 where l: "repeat (if clock w2 - clock w < 15000000 then 15 else 2)
       (work_func func device) (emit StartMonitor w2) = (Inr (), w4)"
    using repeat_total [of "work_func func device"] work_func_total [OF assms(1)] by blast
  obtain r w' where "collect_peaks E emf ms (emit Aggregate (emit StopMonitor w4)) = (Inr r, w')"
    using collect_peaks_total by blast
  with p l have "get_peak_memory E func device num_iter emf ms backend pid w = (Inr r, w')"
    unfolding get_peak_memory_unfold [OF assms(2)] by simp
  then show ?thesis by blast
qed

lemma probe_phase_split:
  "quiet pre \<Longrightarrow> probe_phase (pre @ StartMonitor # xs) = pre"
  by (induction pre) (simp_all add: probe_phase_def)

lemma measure_phase_split:
  assumes "quiet pre" and "quiet loop"
  shows "measure_phase (pre @ StartMonitor # loop @ StopMonitor # rest) = loop"
proof -
  have "dropWhile (\<lambda>e. e \<noteq> StartMonitor) (pre @ StartMonitor # ys) = StartMonitor # ys" for ys
    using assms(1) by (induction pre) simp_all
  moreover have "takeWhile (\<lambda>e. e \<noteq> StopMonitor) (loop @ StopMonitor # rest) = loop"
    using assms(2) by (induction loop) simp_all
  ultimately show ?thesis by (simp add: measure_phase_def)
qed

lemma monitor_running_started:
  "quiet loop \<Longrightarrow> monitor_running (pre @ StartMonitor # loop)"
  by (simp add: monitor_running_def quiet_monitor monitor_step_def)

lemma monitor_running_stopped:
  "quiet rest \<Longrightarrow> \<not> monitor_running (pre @ StartMonitor # loop @ StopMonitor # rest)"
  by (simp add: monitor_running_def quiet_monitor monitor_step_def)

subsection \<open>Evaluating sample runs\<close>

lemmas run_simps = get_peak_memory_def work_func_def seq_def effect_def call_def emit_def
  time_ns_def collect_peaks_def Let_def w0_def sample_env_def
  NANOSECONDS_PER_MILLISECONDS_def BENCHMARK_ITERS_def MEMPROF_ITER_def eval_nat_numeral

subsection \<open>The peak-memory sampler: claims\<close>

text \<open>
  Claim C6. Whatever \<^verbatim>\<open>num_iter\<close> is passed: when a memory metric is requested and the
  callback never raises, \<^verbatim>\<open>get_peak_memory\<close> returns; and whenever it returns, exactly
  one call of the callback was made before the monitor started (the timed probe), and
  between the start and the stop of the monitor the callback was called 15 times if the
  probe took strictly less than 15 ms (15000000 ns) and twice otherwise.
\<close>

theorem get_peak_memory_iteration_count:
  "(never_raises func \<and> (''cpu_peak_mem'' \<in> set ms \<or> ''gpu_peak_mem'' \<in> set ms) \<longrightarrow>
      (\<exists>r w'. get_peak_memory E func device num_iter emf ms backend pid w = (Inr r, w')))
   \<and> (get_peak_memory E func device num_iter emf ms backend pid w = (Inr r, w') \<longrightarrow>
      (\<exists>dt. durations (probe_phase (new_events w w')) = [dt]
          \<and> invocations (probe_phase (new_events w w')) = 1
          \<and> invocations (measure_phase (new_events w w'))
              = (if dt < 15000000 then 15 else 2)))"
proof (intro conjI impI)
  assume "never_raises func \<and> (''cpu_peak_mem'' \<in> set ms \<or> ''gpu_peak_mem'' \<in> set ms)"
  then show "\<exists>r w'. get_peak_memory E func device num_iter emf ms backend pid w = (Inr r, w')"
    using get_peak_memory_total by blast
next
  assume "get_peak_memory E func device num_iter emf ms backend pid w = (Inr r, w')"
  from get_peak_memory_returns [OF this] obtain pre loop rest dt where
    ev: "new_events w w' = pre @ StartMonitor # loop @ StopMonitor # rest"
    and q: "quiet pre" "quiet loop"
    and n: "invocations pre = 1" "durations pre = [dt]"
       "invocations loop = (if dt < 15000000 then 15 else 2)"
    by blast
  have "probe_phase (new_events w w') = pre"
    using ev q probe_phase_split by simp
  moreover have "measure_phase (new_events w w') = loop"
    using ev q measure_phase_split by simp
  ultimately show "\<exists>dt. durations (probe_phase (new_events w w')) = [dt]
          \<and> invocations (probe_phase (new_events w w')) = 1
          \<and> invocations (measure_phase (new_events w w'))
              = (if dt < 15000000 then 15 else 2)"
    using n by simp
qed

theorem get_peak_memory_iteration_count_witness:
  "never_raises fast_func \<and> never_raises slow_func
   \<and> (\<exists>r w'. get_peak_memory sample_env fast_func ''cuda'' 2 [] [''gpu_peak_mem''] ''dcgm'' None w0
                = (Inr r, w')
            \<and> durations (probe_phase (new_events w0 w')) = [3000000]
            \<and> invocations (measure_phase (new_events w0 w')) = 15)
   \<and> (\<exists>r w'. get_peak_memory sample_env slow_func ''cpu'' 15 [] [''cpu_peak_mem''] ''dcgm'' None w0
                = (Inr r, w')
            \<and> durations (probe_phase (new_events w0 w')) = [20000000]
            \<and> invocations (measure_phase (new_events w0 w')) = 2)"
proof -
  have nf: "never_raises fast_func" and ns: "never_raises slow_func"
    by (simp_all add: never_raises_def fast_func_def slow_func_def)
  have "\<exists>r w'. get_peak_memory sample_env fast_func ''cuda'' 2 [] [''gpu_peak_mem''] ''dcgm''
                 None w0 = (Inr r, w')"
    using get_peak_memory_iteration_count
      [of fast_func "[''gpu_peak_mem'']" sample_env "''cuda''" 2 "[]" "''dcgm''" None w0,
       THEN conjunct1] nf
    by simp
  then obtain r1 w1 where
    f: "get_peak_memory sample_env fast_func ''cuda'' 2 [] [''gpu_peak_mem''] ''dcgm'' None w0
          = (Inr r1, w1)"
    by blast
  have "\<exists>r w'. get_peak_memory sample_env slow_func ''cpu'' 15 [] [''cpu_peak_mem''] ''dcgm''
                 None w0 = (Inr r, w')"
    using get_peak_memory_iteration_count
      [of slow_func "[''cpu_peak_mem'']" sample_env "''cpu''" 15 "[]" "''dcgm''" None w0,
       THEN conjunct1] ns
    by simp
  then obtain r2 w2 where
    s: "get_peak_memory sample_env slow_func ''cpu'' 15 [] [''cpu_peak_mem''] ''dcgm'' None w0
          = (Inr r2, w2)"
    by blast
  have pf: "probe_phase (new_events w0 w1)
     = [NewAnalyzer [] [''gpu_peak_mem''] ''dcgm'' None, Synchronize,
        Called (Returns 3000000), Synchronize]"
    using f by (simp add: run_simps fast_func_def new_events_def probe_phase_def
        split: prod.splits) auto
  have ps: "probe_phase (new_events w0 w2)
     = [NewAnalyzer [] [''cpu_peak_mem''] ''dcgm'' None, Called (Returns 20000000)]"
    using s by (simp add: run_simps slow_func_def new_events_def probe_phase_def
        split: prod.splits) auto
  from get_peak_memory_iteration_count
      [of fast_func "[''gpu_peak_mem'']" sample_env "''cuda''" 2 "[]" "''dcgm''" None w0 r1 w1]
    f pf
  have m1: "invocations (measure_phase (new_events w0 w1)) = 15" by simp
  from get_peak_memory_iteration_count
      [of slow_func "[''cpu_peak_mem'']" sample_env "''cpu''" 15 "[]" "''dcgm''" None w0 r2 w2]
    s ps
  have m2: "invocations (measure_phase (new_events w0 w2)) = 2" by simp
  have "\<exists>r w'. get_peak_memory sample_env fast_func ''cuda'' 2 [] [''gpu_peak_mem''] ''dcgm''
                  None w0 = (Inr r, w')
            \<and> durations (probe_phase (new_events w0 w')) = [3000000]
            \<and> invocations (measure_phase (new_events w0 w')) = 15"
    using f pf m1 by (intro exI [of _ r1] exI [of _ w1]) simp
  moreover have "\<exists>r w'. get_peak_memory sample_env slow_func ''cpu'' 15 [] [''cpu_peak_mem'']
                  ''dcgm'' None w0 = (Inr r, w')
            \<and> durations (probe_phase (new_events w0 w')) = [20000000]
            \<and> invocations (measure_phase (new_events w0 w')) = 2"
    using s ps m2 by (intro exI [of _ r2] exI [of _ w2]) simp
  ultimately show ?thesis using nf ns by blast
qed

lemma get_peak_memory_exit_paths:
  "(get_peak_memory E func device num_iter emf ms backend pid w = (Inr r, w') \<longrightarrow>
      StartMonitor \<in> set (new_events w w') \<and> \<not> monitor_running (new_events w w'))
   \<and> (get_peak_memory E func device num_iter emf ms backend pid w = (Inl e, w')
        \<and> StartMonitor \<in> set (new_events w w') \<longrightarrow>
      monitor_running (new_events w w')
      \<and> (\<exists>msg. e = Raised msg \<and> last (new_events w w') = Called (Raises msg)))"
proof (intro conjI impI)
  assume "get_peak_memory E func device num_iter emf ms backend pid w = (Inr r, w')"
  from get_peak_memory_returns [OF this] obtain pre loop rest where
    ev: "new_events w w' = pre @ StartMonitor # loop @ StopMonitor # rest" and "quiet rest"
    by blast
  then show "StartMonitor \<in> set (new_events w w')"
    and "\<not> monitor_running (new_events w w')"
    using monitor_running_stopped by simp_all
next
  assume a: "get_peak_memory E func device num_iter emf ms backend pid w = (Inl e, w')
        \<and> StartMonitor \<in> set (new_events w w')"
  then have run: "get_peak_memory E func device num_iter emf ms backend pid w = (Inl e, w')"
    and started: "StartMonitor \<in> set (new_events w w')" by simp_all
  from get_peak_memory_fails [OF run] started
  obtain pre loop msg where ev: "new_events w w' = pre @ StartMonitor # loop"
    and q: "quiet loop" "loop \<noteq> []" and e: "e = Raised msg" "last loop = Called (Raises msg)"
    by (auto simp: new_events_def quiet_def)
  show "monitor_running (new_events w w')"
    using ev q monitor_running_started by simp
  show "\<exists>msg. e = Raised msg \<and> last (new_events w w') = Called (Raises msg)"
    using ev q e by simp
qed

lemma call_raise:
  "func w = Raises msg \<Longrightarrow> call func w = (Inl (Raised msg), emit (Called (Raises msg)) w)"
  by (simp add: call_def)

lemma work_func_raise:
  assumes "func (at_call device w) = Raises msg"
  shows "work_func func device w
           = (Inl (Raised msg), emit (Called (Raises msg)) (at_call device w))"
proof (cases "device = ''cuda''")
  case True
  with assms have "func (emit Synchronize w) = Raises msg" by (simp add: at_call_def)
  with call_raise [of func "emit Synchronize w" msg] True show ?thesis
    by (simp add: work_func_def at_call_def seq_def effect_def)
next
  case False
  with assms have "func w = Raises msg" by (simp add: at_call_def)
  with call_raise [of func w msg] False show ?thesis
    by (simp add: work_func_def at_call_def)
qed

lemma repeat_stops_at_raise:
  "repeat k body w = (Inr (), wk) \<Longrightarrow> body wk = (Inl e, w') \<Longrightarrow> k < n
     \<Longrightarrow> repeat n body w = (Inl e, w')"
proof (induction k arbitrary: w n)
  case 0
  then obtain n' where "n = Suc n'" by (cases n) simp_all
  with 0 show ?case by simp
next
  case (Suc k)
  from Suc.prems(3) obtain n' where n: "n = Suc n'" "k < n'" by (cases n) simp_all
  from Suc.prems(1) obtain w1 where b: "body w = (Inr (), w1)"
    and r: "repeat k body w1 = (Inr (), wk)"
    by (auto split: prod.splits sum.splits)
  from Suc.IH [OF r Suc.prems(2) n(2)] b n(1) show ?case by simp
qed

lemma at_call_trace: "\<exists>es. trace (at_call device w) = trace w @ es \<and> quiet es"
proof (cases "device = ''cuda''")
  case True
  then have "trace (at_call device w) = trace w @ [Synchronize] \<and> quiet [Synchronize]"
    by (simp add: at_call_def)
  then show ?thesis by blast
next
  case False
  then have "trace (at_call device w) = trace w @ [] \<and> quiet []"
    by (simp add: at_call_def)
  then show ?thesis by blast
qed

lemma get_peak_memory_raise_in_loop:
  assumes needed: "''cpu_peak_mem'' \<in> set ms \<or> ''gpu_peak_mem'' \<in> set ms"
    and probe: "work_func func device
                  (emit (NewAnalyzer emf
                           (filter (\<lambda>m. m \<in> set [''cpu_peak_mem'', ''gpu_peak_mem'']) ms)
                           backend pid) w) = (Inr (), w2)"
    and loop: "raises_in_loop func device (if clock w2 - clock w < 15000000 then 15 else 2)
                 (emit StartMonitor w2) msg"
  shows "\<exists>w'. get_peak_memory E func device num_iter emf ms backend pid w
                = (Inl (Raised msg), w')
            \<and> StartMonitor \<in> set (new_events w w')
            \<and> StopMonitor \<notin> set (new_events w w')
            \<and> monitor_running (new_events w w')
            \<and> last (new_events w w') = Called (Raises msg)"
proof -
  let ?a = "NewAnalyzer emf (filter (\<lambda>m. m \<in> set [''cpu_peak_mem'', ''gpu_peak_mem'']) ms)
              backend pid"
  let ?n = "if clock w2 - clock w < 15000000 then 15 else 2 :: nat"
  from loop obtain k wk where k: "k < ?n"
    and before: "repeat k (work_func func device) (emit StartMonitor w2) = (Inr (), wk)"
    and raises: "func (at_call device wk) = Raises msg"
    unfolding raises_in_loop_def by blast
  let ?w' = "emit (Called (Raises msg)) (at_call device wk)"
  have "work_func func device wk = (Inl (Raised msg), ?w')"
    using work_func_raise [of func device wk msg] raises by simp
  from repeat_stops_at_raise [OF before this k]
  have "repeat ?n (work_func func device) (emit StartMonitor w2) = (Inl (Raised msg), ?w')" .
  with probe have run: "get_peak_memory E func device num_iter emf ms backend pid w
                          = (Inl (Raised msg), ?w')"
    unfolding get_peak_memory_unfold [OF needed] by simp
  from work_func_returns [OF probe] obtain es1 where 1: "trace w2 = trace w @ ?a # es1"
    "quiet es1" by auto
  from measure_loop_returns [OF before] obtain es2 where 2:
    "trace wk = trace w2 @ StartMonitor # es2" "quiet es2" by auto
  from at_call_trace [of device wk] obtain es3 where 3:
    "trace (at_call device wk) = trace wk @ es3" "quiet es3" by blast
  let ?loop = "es2 @ es3 @ [Called (Raises msg)]"
  from 1 2 3 have ev: "new_events w ?w' = (?a # es1) @ StartMonitor # ?loop"
    by (simp add: new_events_def)
  have q: "quiet (?a # es1)" "quiet ?loop" using 1 2 3 by simp_all
  have "StartMonitor \<in> set (new_events w ?w')" using ev by simp
  moreover have "StopMonitor \<notin> set (new_events w ?w')"
    using ev q by (simp add: quiet_def)
  moreover have "monitor_running (new_events w ?w')"
    unfolding ev using q(2) by (rule monitor_running_started)
  moreover have "last (new_events w ?w') = Called (Raises msg)"
    using ev by simp
  ultimately show ?thesis using run by blast
qed

lemma get_peak_memory_all_return:
  assumes "never_raises func"
    and "''cpu_peak_mem'' \<in> set ms \<or> ''gpu_peak_mem'' \<in> set ms"
  shows "\<exists>r w'. get_peak_memory E func device num_iter emf ms backend pid w = (Inr r, w')
            \<and> StartMonitor \<in> set (new_events w w')
            \<and> \<not> monitor_running (new_events w w')"
proof -
  from get_peak_memory_total [OF assms] obtain r w' where
    run: "get_peak_memory E func device num_iter emf ms backend pid w = (Inr r, w')" by blast
  from get_peak_memory_exit_paths [of E func device num_iter emf ms backend pid w r w'] run
  have "StartMonitor \<in> set (new_events w w') \<and> \<not> monitor_running (new_events w w')"
    by blast
  with run show ?thesis by blast
qed

text \<open>
  Claim C5, as the code has it. There is no guaranteed-release construct around the
  measurement loop: the monitor is stopped on the normal exit path only.
  \<^item> When \<^verbatim>\<open>get_peak_memory\<close> returns, the monitor was started and is no longer running.
  \<^item> When it fails after the monitor was started, the failure is the exception of a
    callback call (the last event of the run), and the monitor is still running.
  \<^item> When a memory metric is requested and no call of the callback raises, it returns,
    with the monitor started and stopped.
  \<^item> When a memory metric is requested, the probe returns and a call of the callback in
    the measurement loop raises, the call of \<^verbatim>\<open>get_peak_memory\<close> fails with that
    exception; the monitor was started, is never stopped and is still running, and
    the raising call is the last event of the run.

  The methods of the analyzer are taken not to raise.
\<close>

theorem get_peak_memory_monitor_stopped_on_return_only:
  "(get_peak_memory E func device num_iter emf ms backend pid w = (Inr r, w') \<longrightarrow>
      StartMonitor \<in> set (new_events w w') \<and> \<not> monitor_running (new_events w w'))
   \<and> (get_peak_memory E func device num_iter emf ms backend pid w = (Inl e, w')
        \<and> StartMonitor \<in> set (new_events w w') \<longrightarrow>
      monitor_running (new_events w w')
      \<and> (\<exists>msg. e = Raised msg \<and> last (new_events w w') = Called (Raises msg)))
   \<and> (never_raises func \<and> (''cpu_peak_mem'' \<in> set ms \<or> ''gpu_peak_mem'' \<in> set ms) \<longrightarrow>
      (\<exists>r w'. get_peak_memory E func device num_iter emf ms backend pid w = (Inr r, w')
            \<and> StartMonitor \<in> set (new_events w w')
            \<and> \<not> monitor_running (new_events w w')))
   \<and> ((''cpu_peak_mem'' \<in> set ms \<or> ''gpu_peak_mem'' \<in> set ms)
        \<and> work_func func device
             (emit (NewAnalyzer emf
                      (filter (\<lambda>m. m \<in> set [''cpu_peak_mem'', ''gpu_peak_mem'']) ms)
                      backend pid) w) = (Inr (), w2)
        \<and> raises_in_loop func device (if clock w2 - clock w < 15000000 then 15 else 2)
             (emit StartMonitor w2) msg \<longrightarrow>
      (\<exists>w'. get_peak_memory E func device num_iter emf ms backend pid w
                = (Inl (Raised msg), w')
            \<and> StartMonitor \<in> set (new_events w w')
            \<and> StopMonitor \<notin> set (new_events w w')
            \<and> monitor_running (new_events w w')
            \<and> last (new_events w w') = Called (Raises msg)))"
proof (intro conjI)
  show "get_peak_memory E func device num_iter emf ms backend pid w = (Inr r, w') \<longrightarrow>
      StartMonitor \<in> set (new_events w w') \<and> \<not> monitor_running (new_events w w')"
    using get_peak_memory_exit_paths [of E func device num_iter emf ms backend pid w r w']
    by blast
  show "get_peak_memory E func device num_iter emf ms backend pid w = (Inl e, w')
        \<and> StartMonitor \<in> set (new_events w w') \<longrightarrow>
      monitor_running (new_events w w')
      \<and> (\<exists>msg. e = Raised msg \<and> last (new_events w w') = Called (Raises msg))"
    using get_peak_memory_exit_paths [of E func device num_iter emf ms backend pid w _ w' e]
    by blast
  show "never_raises func \<and> (''cpu_peak_mem'' \<in> set ms \<or> ''gpu_peak_mem'' \<in> set ms) \<longrightarrow>
      (\<exists>r w'. get_peak_memory E func device num_iter emf ms backend pid w = (Inr r, w')
            \<and> StartMonitor \<in> set (new_events w w')
            \<and> \<not> monitor_running (new_events w w'))"
    using get_peak_memory_all_return by blast
  show "(''cpu_peak_mem'' \<in> set ms \<or> ''gpu_peak_mem'' \<in> set ms)
        \<and> work_func func device
             (emit (NewAnalyzer emf
                      (filter (\<lambda>m. m \<in> set [''cpu_peak_mem'', ''gpu_peak_mem'']) ms)
                      backend pid) w) = (Inr (), w2)
        \<and> raises_in_loop func device (if clock w2 - clock w < 15000000 then 15 else 2)
             (emit StartMonitor w2) msg \<longrightarrow>
      (\<exists>w'. get_peak_memory E func device num_iter emf ms backend pid w
                = (Inl (Raised msg), w')
            \<and> StartMonitor \<in> set (new_events w w')
            \<and> StopMonitor \<notin> set (new_events w w')
            \<and> monitor_running (new_events w w')
            \<and> last (new_events w w') = Called (Raises msg))"
    using get_peak_memory_raise_in_loop by blast
qed

theorem get_peak_memory_monitor_stopped_on_return_only_witness:
  "never_raises slow_func
   \<and> (\<exists>r w'. get_peak_memory sample_env slow_func ''cpu'' 2 [] [''cpu_peak_mem''] ''dcgm'' None w0
              = (Inr r, w')
          \<and> StartMonitor \<in> set (new_events w0 w') \<and> \<not> monitor_running (new_events w0 w'))
   \<and> raises_in_loop failing_func ''cpu'' 15
        (emit StartMonitor
           \<lparr>clock = 1000000,
            trace = [NewAnalyzer [] [''cpu_peak_mem''] ''dcgm'' None,
                     Called (Returns 1000000)]\<rparr>)
        ''out of memory''
   \<and> (\<exists>w'. get_peak_memory sample_env failing_func ''cpu'' 2 [] [''cpu_peak_mem''] ''dcgm'' None w0
              = (Inl (Raised ''out of memory''), w')
          \<and> StartMonitor \<in> set (new_events w0 w') \<and> StopMonitor \<notin> set (new_events w0 w')
          \<and> monitor_running (new_events w0 w')
          \<and> last (new_events w0 w') = Called (Raises ''out of memory''))
   \<and> \<not> monitor_running
         [NewAnalyzer [] [''cpu_peak_mem''] ''dcgm'' None, Called (Returns 20000000),
          StartMonitor, Called (Returns 20000000), Called (Returns 20000000),
          StopMonitor, Aggregate, CalculateCpuPeakMem]
   \<and> monitor_running
         [NewAnalyzer [] [''cpu_peak_mem''] ''dcgm'' None, Called (Returns 1000000),
          StartMonitor, Called (Raises ''out of memory'')]"
proof -
  let ?a = "NewAnalyzer [] [''cpu_peak_mem''] ''dcgm'' None"
  let ?w2 = "\<lparr>clock = 1000000, trace = [?a, Called (Returns 1000000)]\<rparr>"
  let ?ok = "\<lparr>clock = 60000000,
      trace = [?a, Called (Returns 20000000),
               StartMonitor, Called (Returns 20000000), Called (Returns 20000000),
               StopMonitor, Aggregate, CalculateCpuPeakMem]\<rparr>"
  let ?bad = "\<lparr>clock = 1000000,
      trace = [?a, Called (Returns 1000000), StartMonitor,
               Called (Raises ''out of memory'')]\<rparr>"
  have ns: "never_raises slow_func"
    by (simp add: never_raises_def slow_func_def)
  have needed: "''cpu_peak_mem'' \<in> set [''cpu_peak_mem''] \<or> ''gpu_peak_mem'' \<in> set [''cpu_peak_mem'']"
    by simp
  have flt: "filter (\<lambda>m. m \<in> set [''cpu_peak_mem'', ''gpu_peak_mem'']) [''cpu_peak_mem'']
               = [''cpu_peak_mem'']" by simp
  have probe: "work_func failing_func ''cpu''
                 (emit (NewAnalyzer []
                          (filter (\<lambda>m. m \<in> set [''cpu_peak_mem'', ''gpu_peak_mem''])
                                  [''cpu_peak_mem''])
                          ''dcgm'' None) w0) = (Inr (), ?w2)"
    by (simp add: work_func_def call_def failing_func_def emit_def w0_def)
  have count: "(if clock ?w2 - clock w0 < 15000000 then 15 else 2 :: nat) = 15"
    by (simp add: w0_def)
  have "repeat 0 (work_func failing_func ''cpu'') (emit StartMonitor ?w2)
          = (Inr (), emit StartMonitor ?w2)
        \<and> failing_func (at_call ''cpu'' (emit StartMonitor ?w2)) = Raises ''out of memory''"
    by (simp add: at_call_def failing_func_def emit_def)
  then have loop: "raises_in_loop failing_func ''cpu'' 15 (emit StartMonitor ?w2) ''out of memory''"
    unfolding raises_in_loop_def by (intro exI [of _ 0] exI [of _ "emit StartMonitor ?w2"]) simp
  have ok: "get_peak_memory sample_env slow_func ''cpu'' 2 [] [''cpu_peak_mem''] ''dcgm'' None w0
              = (Inr (Some 128, None, None), ?ok)"
    by (simp add: run_simps slow_func_def)
  have bad: "get_peak_memory sample_env failing_func ''cpu'' 2 [] [''cpu_peak_mem''] ''dcgm''
               None w0 = (Inl (Raised ''out of memory''), ?bad)"
    by (simp add: run_simps failing_func_def)
  have started: "StartMonitor \<in> set (new_events w0 ?bad)"
    by (simp add: new_events_def w0_def)
  have evs: "new_events w0 ?ok = trace ?ok" "new_events w0 ?bad = trace ?bad"
    by (simp_all add: new_events_def w0_def)
  from get_peak_memory_monitor_stopped_on_return_only [of sample_env slow_func "''cpu''" 2 "[]" "[''cpu_peak_mem'']" "''dcgm''" None w0
               "(Some 128, None, None)" ?ok] ok
  have 1: "\<not> monitor_running (new_events w0 ?ok)"
    by simp
  from get_peak_memory_monitor_stopped_on_return_only [of sample_env failing_func "''cpu''" 2 "[]" "[''cpu_peak_mem'']" "''dcgm''" None w0
               _ ?bad "Raised ''out of memory''"] bad started
  have 2: "monitor_running (new_events w0 ?bad)"
    by simp
  from get_peak_memory_monitor_stopped_on_return_only [of sample_env slow_func "''cpu''" 2 "[]" "[''cpu_peak_mem'']" "''dcgm''" None w0]
    ns needed
  have 3: "\<exists>r w'. get_peak_memory sample_env slow_func ''cpu'' 2 [] [''cpu_peak_mem''] ''dcgm''
                     None w0 = (Inr r, w')
          \<and> StartMonitor \<in> set (new_events w0 w') \<and> \<not> monitor_running (new_events w0 w')"
    by blast
  from get_peak_memory_monitor_stopped_on_return_only [of sample_env failing_func "''cpu''" 2 "[]" "[''cpu_peak_mem'']" "''dcgm''" None w0
               _ _ _ ?w2 "''out of memory''"]
    needed probe loop count
  have 4: "\<exists>w'. get_peak_memory sample_env failing_func ''cpu'' 2 [] [''cpu_peak_mem''] ''dcgm''
                   None w0 = (Inl (Raised ''out of memory''), w')
          \<and> StartMonitor \<in> set (new_events w0 w') \<and> StopMonitor \<notin> set (new_events w0 w')
          \<and> monitor_running (new_events w0 w')
          \<and> last (new_events w0 w') = Called (Raises ''out of memory'')"
    by simp
  from 1 2 evs have 5: "\<not> monitor_running (trace ?ok)" "monitor_running (trace ?bad)"
    by simp_all
  show ?thesis
    using ns 3 loop 4 5 by simp
qed

text \<open>
  The claim as worded fails for a callback that raises inside the measurement loop: the
  error reaches the caller after \<^verbatim>\<open>start_monitor\<close> and without any \<^verbatim>\<open>stop_monitor\<close>.
\<close>

theorem get_peak_memory_monitor_counterexample:
  "get_peak_memory sample_env failing_func ''cpu'' 2 [] [''cpu_peak_mem''] ''dcgm'' None w0
     = (Inl (Raised ''out of memory''),
        \<lparr>clock = 1000000,
         trace = [NewAnalyzer [] [''cpu_peak_mem''] ''dcgm'' None, Called (Returns 1000000),
                  StartMonitor, Called (Raises ''out of memory'')]\<rparr>)
   \<and> StopMonitor \<notin> set [NewAnalyzer [] [''cpu_peak_mem''] ''dcgm'' None,
                          Called (Returns 1000000), StartMonitor,
                          Called (Raises ''out of memory'')]"
  by (simp add: run_simps failing_func_def)

text \<open>
  Claim C9. \<^verbatim>\<open>get_peak_memory\<close> fails with the configuration error of line 78 if and only
  if \<^verbatim>\<open>metrics_needed\<close> contains neither \<^verbatim>\<open>cpu_peak_mem\<close> nor \<^verbatim>\<open>gpu_peak_mem\<close>; it
  then leaves the world as it found it: no analyzer created, no monitor started, no call
  of the callback.
\<close>

theorem get_peak_memory_config_error:
  "((\<exists>ms'. fst (get_peak_memory E func device num_iter emf ms backend pid w)
            = Inl (MetricsNeededEmpty ms'))
      \<longleftrightarrow> (''cpu_peak_mem'' \<notin> set ms \<and> ''gpu_peak_mem'' \<notin> set ms))
   \<and> (''cpu_peak_mem'' \<notin> set ms \<and> ''gpu_peak_mem'' \<notin> set ms \<longrightarrow>
        get_peak_memory E func device num_iter emf ms backend pid w
          = (Inl (MetricsNeededEmpty ms), w))"
proof -
  let ?run = "get_peak_memory E func device num_iter emf ms backend pid w"
  have rej: "''cpu_peak_mem'' \<notin> set ms \<and> ''gpu_peak_mem'' \<notin> set ms \<longrightarrow>
      ?run = (Inl (MetricsNeededEmpty ms), w)"
    using get_peak_memory_rejects by blast
  have forth: "''cpu_peak_mem'' \<notin> set ms \<and> ''gpu_peak_mem'' \<notin> set ms"
    if "fst ?run = Inl (MetricsNeededEmpty ms')" for ms'
  proof -
    from that have "?run = (Inl (MetricsNeededEmpty ms'), snd ?run)"
      by (metis prod.collapse)
    from get_peak_memory_fails [OF this] show ?thesis by auto
  qed
  show ?thesis
  proof (rule conjI, rule iffI)
    assume "\<exists>ms'. fst ?run = Inl (MetricsNeededEmpty ms')"
    then obtain ms' where "fst ?run = Inl (MetricsNeededEmpty ms')" by blast
    from forth [OF this] show "''cpu_peak_mem'' \<notin> set ms \<and> ''gpu_peak_mem'' \<notin> set ms" .
  next
    assume "''cpu_peak_mem'' \<notin> set ms \<and> ''gpu_peak_mem'' \<notin> set ms"
    with rej have "fst ?run = Inl (MetricsNeededEmpty ms)" by simp
    then show "\<exists>ms'. fst ?run = Inl (MetricsNeededEmpty ms')" by blast
  next
    show "''cpu_peak_mem'' \<notin> set ms \<and> ''gpu_peak_mem'' \<notin> set ms \<longrightarrow>
      ?run = (Inl (MetricsNeededEmpty ms), w)" by (rule rej)
  qed
qed

theorem get_peak_memory_config_error_witness:
  "get_peak_memory sample_env failing_func ''cpu'' 2 [] [''latencies'', ''ttfb''] ''dcgm'' None w0
     = (Inl (MetricsNeededEmpty [''latencies'', ''ttfb'']), w0)
   \<and> (\<forall>ms'. fst (get_peak_memory sample_env failing_func ''cpu'' 2 [] [''latencies'', ''gpu_peak_mem'']
                   ''dcgm'' None w0) \<noteq> Inl (MetricsNeededEmpty ms'))"
  using get_peak_memory_config_error
          [of sample_env failing_func "''cpu''" 2 "[]" "[''latencies'', ''ttfb'']" "''dcgm''" None w0]
        get_peak_memory_config_error
          [of sample_env failing_func "''cpu''" 2 "[]" "[''latencies'', ''gpu_peak_mem'']"
              "''dcgm''" None w0]
  by simp

subsection \<open>The metrics orchestrator, step by step\<close>

lemma get_model_test_metrics_steps:
  assumes "get_model_test_metrics E m req emf backend nwarmup num_iter w = (Inr r, w')"
  shows "\<exists>a pid r1 r2 r3 w1 w2 w3. attrs_of m = Some a
     \<and> measure_latencies a req nwarmup num_iter empty_metrics w = (Inr r1, w1)
     \<and> measure_peak_memory E a pid req emf backend r1 w1 = (Inr r2, w2)
     \<and> derive_throughputs a req r2 w2 = (Inr r3, w3)
     \<and> read_attributes E a req r3 w3 = (Inr r, w')"
proof (cases m)
  case (BenchmarkModel a)
  with assms show ?thesis
    unfolding get_model_test_metrics_def seq_def attrs_of_def
    by (simp split: prod.splits sum.splits) blast
next
  case (ModelTask a)
  with assms show ?thesis
    unfolding get_model_test_metrics_def seq_def attrs_of_def
    by (simp split: prod.splits sum.splits) blast
next
  case OtherObject
  with assms show ?thesis
    by (simp add: get_model_test_metrics_def raise_def)
qed

lemma measure_latencies_frame:
  assumes "measure_latencies a req nwarmup num_iter r w = (Inr r', w')"
  shows "throughputs r' = throughputs r \<and> accuracy r' = accuracy r
       \<and> cpu_peak_mem r' = cpu_peak_mem r \<and> gpu_peak_mem r' = gpu_peak_mem r
       \<and> ttfb r' = ttfb r \<and> pt2_compilation_time r' = pt2_compilation_time r
       \<and> pt2_graph_breaks r' = pt2_graph_breaks r \<and> model_flops r' = model_flops r
       \<and> error_msg r' = error_msg r
       \<and> (''latencies'' \<notin> set req \<and> ''throughputs'' \<notin> set req \<longrightarrow> latencies r' = latencies r)"
  using assms
  by (auto simp: measure_latencies_def seq_def ret_def split: if_splits prod.splits sum.splits)

lemma collect_peaks_unrequested:
  assumes "collect_peaks E emf ms w = (Inr (cpu, device_id, gpu), w')"
  shows "(''cpu_peak_mem'' \<notin> set ms \<longrightarrow> cpu = None)
       \<and> (''gpu_peak_mem'' \<notin> set ms \<longrightarrow> gpu = None \<and> device_id = None)"
  using assms by (auto simp: collect_peaks_def Let_def split: if_splits prod.splits)

lemma get_peak_memory_unrequested:
  assumes "get_peak_memory E func device num_iter emf ms backend pid w
             = (Inr (cpu, device_id, gpu), w')"
  shows "(''cpu_peak_mem'' \<notin> set ms \<longrightarrow> cpu = None)
       \<and> (''gpu_peak_mem'' \<notin> set ms \<longrightarrow> gpu = None \<and> device_id = None)"
proof -
  have needed: "''cpu_peak_mem'' \<in> set ms \<or> ''gpu_peak_mem'' \<in> set ms"
    using assms get_peak_memory_rejects [of ms E func device num_iter emf backend pid w]
    by auto
  from assms obtain W where "collect_peaks E emf ms W = (Inr (cpu, device_id, gpu), w')"
    unfolding get_peak_memory_unfold [OF needed]
    by (auto split: prod.splits sum.splits)
  from collect_peaks_unrequested [OF this] show ?thesis .
qed

lemma measure_peak_memory_frame:
  assumes "measure_peak_memory E a pid req emf backend r w = (Inr r', w')"
  shows "latencies r' = latencies r \<and> throughputs r' = throughputs r
       \<and> accuracy r' = accuracy r
       \<and> ttfb r' = ttfb r \<and> pt2_compilation_time r' = pt2_compilation_time r
       \<and> pt2_graph_breaks r' = pt2_graph_breaks r \<and> model_flops r' = model_flops r
       \<and> error_msg r' = error_msg r
       \<and> (''cpu_peak_mem'' \<notin> set req \<longrightarrow> cpu_peak_mem r' = cpu_peak_mem r \<or> cpu_peak_mem r' = None)
       \<and> (''gpu_peak_mem'' \<notin> set req \<longrightarrow> gpu_peak_mem r' = gpu_peak_mem r \<or> gpu_peak_mem r' = None)"
proof (cases "''cpu_peak_mem'' \<in> set req \<or> ''gpu_peak_mem'' \<in> set req")
  case True
  with assms obtain cpu d gpu w1 where
    g: "get_peak_memory E (invoke a) (attr_device a) MEMPROF_ITER emf req backend (Some pid) w
          = (Inr (cpu, d, gpu), w1)"
    and r': "r' = r\<lparr>cpu_peak_mem := cpu, gpu_peak_mem := gpu\<rparr>"
    by (auto simp: measure_peak_memory_def seq_def ret_def split: prod.splits sum.splits)
  from get_peak_memory_unrequested [OF g] r' show ?thesis by simp
next
  case False
  with assms have "r' = r" by (simp add: measure_peak_memory_def ret_def)
  then show ?thesis by simp
qed

lemma derive_throughputs_frame:
  assumes "derive_throughputs a req r w = (Inr r', w')"
  shows "if ''throughputs'' \<in> set req
         then 0 \<notin> set (latencies r)
            \<and> r' = r\<lparr>throughputs :=
                       map (\<lambda>latency. real_of_int (attr_batch_size a * 1000) / latency)
                           (latencies r)\<rparr>
         else r' = r"
  using assms by (auto simp: derive_throughputs_def ret_def raise_def split: if_splits)

lemma read_attributes_frame:
  assumes "read_attributes E a req r w = (Inr r', w')"
  shows "latencies r' = latencies r \<and> throughputs r' = throughputs r
       \<and> accuracy r' = accuracy r \<and> cpu_peak_mem r' = cpu_peak_mem r
       \<and> gpu_peak_mem r' = gpu_peak_mem r \<and> error_msg r' = error_msg r
       \<and> (''pt2_compilation_time'' \<notin> set req \<longrightarrow> pt2_compilation_time r' = pt2_compilation_time r)
       \<and> (''pt2_graph_breaks'' \<notin> set req \<longrightarrow> pt2_graph_breaks r' = pt2_graph_breaks r)
       \<and> (''model_flops'' \<notin> set req \<longrightarrow> model_flops r' = model_flops r)
       \<and> (''ttfb'' \<notin> set req \<longrightarrow> ttfb r' = ttfb r)"
  using assms
  by (auto simp: read_attributes_def Let_def seq_def ret_def split: if_splits prod.splits sum.splits)

lemmas metrics_simps = get_model_test_metrics_def measure_latencies_def
  measure_peak_memory_def derive_throughputs_def read_attributes_def get_latencies_def
  timed_call_def ret_def raise_def sample_attrs_def slow_func_def empty_metrics_def
  get_model_flops_def

subsection \<open>The metrics orchestrator: claims\<close>

text \<open>
  Claim C3, as the code has it. In the record \<^verbatim>\<open>get_model_test_metrics\<close> returns, every
  field whose name is not in \<^verbatim>\<open>required_metrics\<close> has its default value (the empty list
  for \<^verbatim>\<open>throughputs\<close>, \<^verbatim>\<open>None\<close> for the optional fields), with one exception:
  \<^verbatim>\<open>latencies\<close> is also measured when \<^verbatim>\<open>throughputs\<close> is requested (line 175), so it
  is empty when neither of the two names is requested.
\<close>

theorem get_model_test_metrics_unrequested_default:
  assumes "get_model_test_metrics E m req emf backend nwarmup num_iter w = (Inr r, w')"
  shows "(''latencies'' \<notin> set req \<and> ''throughputs'' \<notin> set req \<longrightarrow> latencies r = [])
       \<and> (''throughputs'' \<notin> set req \<longrightarrow> throughputs r = [])
       \<and> (''accuracy'' \<notin> set req \<longrightarrow> accuracy r = None)
       \<and> (''cpu_peak_mem'' \<notin> set req \<longrightarrow> cpu_peak_mem r = None)
       \<and> (''gpu_peak_mem'' \<notin> set req \<longrightarrow> gpu_peak_mem r = None)
       \<and> (''ttfb'' \<notin> set req \<longrightarrow> ttfb r = None)
       \<and> (''pt2_compilation_time'' \<notin> set req \<longrightarrow> pt2_compilation_time r = None)
       \<and> (''pt2_graph_breaks'' \<notin> set req \<longrightarrow> pt2_graph_breaks r = None)
       \<and> (''model_flops'' \<notin> set req \<longrightarrow> model_flops r = None)
       \<and> (''error_msg'' \<notin> set req \<longrightarrow> error_msg r = None)"
proof -
  from get_model_test_metrics_steps [OF assms] obtain a pid r1 r2 r3 w1 w2 w3 where
    s1: "measure_latencies a req nwarmup num_iter empty_metrics w = (Inr r1, w1)" and
    s2: "measure_peak_memory E a pid req emf backend r1 w1 = (Inr r2, w2)" and
    s3: "derive_throughputs a req r2 w2 = (Inr r3, w3)" and
    s4: "read_attributes E a req r3 w3 = (Inr r, w')"
    by blast
  note f1 = measure_latencies_frame [OF s1]
  note f2 = measure_peak_memory_frame [OF s2]
  note f3 = derive_throughputs_frame [OF s3]
  note f4 = read_attributes_frame [OF s4]
  have r3: "latencies r3 = latencies r2 \<and> accuracy r3 = accuracy r2
       \<and> cpu_peak_mem r3 = cpu_peak_mem r2 \<and> gpu_peak_mem r3 = gpu_peak_mem r2
       \<and> ttfb r3 = ttfb r2 \<and> pt2_compilation_time r3 = pt2_compilation_time r2
       \<and> pt2_graph_breaks r3 = pt2_graph_breaks r2 \<and> model_flops r3 = model_flops r2
       \<and> error_msg r3 = error_msg r2
       \<and> (''throughputs'' \<notin> set req \<longrightarrow> throughputs r3 = throughputs r2)"
    using f3 by (cases "''throughputs'' \<in> set req") simp_all
  have e: "latencies empty_metrics = [] \<and> throughputs empty_metrics = []
       \<and> accuracy empty_metrics = None \<and> cpu_peak_mem empty_metrics = None
       \<and> gpu_peak_mem empty_metrics = None \<and> ttfb empty_metrics = None
       \<and> pt2_compilation_time empty_metrics = None \<and> pt2_graph_breaks empty_metrics = None
       \<and> model_flops empty_metrics = None \<and> error_msg empty_metrics = None"
    by (simp add: empty_metrics_def)
  show ?thesis
  proof (intro conjI impI)
    assume "''latencies'' \<notin> set req \<and> ''throughputs'' \<notin> set req"
    then show "latencies r = []" using f1 f2 r3 f4 e by simp
  next
    assume "''throughputs'' \<notin> set req"
    then show "throughputs r = []" using f1 f2 r3 f4 e by simp
  next
    show "accuracy r = None" using f1 f2 r3 f4 e by simp
  next
    assume "''cpu_peak_mem'' \<notin> set req"
    then show "cpu_peak_mem r = None" using f1 f2 r3 f4 e by auto
  next
    assume "''gpu_peak_mem'' \<notin> set req"
    then show "gpu_peak_mem r = None" using f1 f2 r3 f4 e by auto
  next
    assume "''ttfb'' \<notin> set req"
    then show "ttfb r = None" using f1 f2 r3 f4 e by simp
  next
    assume "''pt2_compilation_time'' \<notin> set req"
    then show "pt2_compilation_time r = None" using f1 f2 r3 f4 e by simp
  next
    assume "''pt2_graph_breaks'' \<notin> set req"
    then show "pt2_graph_breaks r = None" using f1 f2 r3 f4 e by simp
  next
    assume "''model_flops'' \<notin> set req"
    then show "model_flops r = None" using f1 f2 r3 f4 e by simp
  next
    show "error_msg r = None" using f1 f2 r3 f4 e by simp
  qed
qed

theorem get_model_test_metrics_unrequested_default_witness:
  "get_model_test_metrics sample_env (BenchmarkModel sample_attrs)
       [''latencies'', ''ttfb'', ''model_flops''] [] ''nvml'' 1 2 w0
     = (Inr \<lparr>latencies = [20, 20], throughputs = [], accuracy = None,
              cpu_peak_mem = None, gpu_peak_mem = None, ttfb = Some 9,
              pt2_compilation_time = None, pt2_graph_breaks = None,
              model_flops = Some 30, error_msg = None\<rparr>,
        \<lparr>clock = 80000000,
         trace = [Called (Returns 20000000), Called (Returns 20000000),
                  Called (Returns 20000000), FlopCounterEnter,
                  Called (Returns 20000000), FlopCounterExit]\<rparr>)
   \<and> ''throughputs'' \<notin> set [''latencies'', ''ttfb'', ''model_flops'']
   \<and> ''cpu_peak_mem'' \<notin> set [''latencies'', ''ttfb'', ''model_flops'']"
proof -
  let ?r = "\<lparr>latencies = [20, 20], throughputs = [], accuracy = None,
              cpu_peak_mem = None, gpu_peak_mem = None, ttfb = Some 9,
              pt2_compilation_time = None, pt2_graph_breaks = None,
              model_flops = Some 30, error_msg = None\<rparr>"
  let ?w = "\<lparr>clock = 80000000,
         trace = [Called (Returns 20000000), Called (Returns 20000000),
                  Called (Returns 20000000), FlopCounterEnter,
                  Called (Returns 20000000), FlopCounterExit]\<rparr>"
  have run: "get_model_test_metrics sample_env (BenchmarkModel sample_attrs)
       [''latencies'', ''ttfb'', ''model_flops''] [] ''nvml'' 1 2 w0 = (Inr ?r, ?w)"
    by (simp add: metrics_simps run_simps)
  from get_model_test_metrics_unrequested_default [OF run]
  have "throughputs ?r = [] \<and> cpu_peak_mem ?r = None" by simp
  with run show ?thesis by simp
qed

text \<open>
  The claim as worded fails when only \<^verbatim>\<open>throughputs\<close> is requested: \<^verbatim>\<open>latencies\<close> is
  not requested and is not empty.
\<close>

theorem get_model_test_metrics_latencies_counterexample:
  "get_model_test_metrics sample_env (ModelTask sample_attrs) [''throughputs''] [] ''nvml'' 0 1 w0
     = (Inr \<lparr>latencies = [20], throughputs = [200], accuracy = None,
              cpu_peak_mem = None, gpu_peak_mem = None, ttfb = None,
              pt2_compilation_time = None, pt2_graph_breaks = None,
              model_flops = None, error_msg = None\<rparr>,
        \<lparr>clock = 20000000, trace = [Called (Returns 20000000)]\<rparr>)
   \<and> ''latencies'' \<notin> set [''throughputs'']"
  by (simp add: metrics_simps run_simps)

text \<open>
  Claim C7. When \<^verbatim>\<open>get_model_test_metrics\<close> is called with \<^verbatim>\<open>throughputs\<close> in
  \<^verbatim>\<open>required_metrics\<close> and returns, \<^verbatim>\<open>throughputs\<close> has the length of
  \<^verbatim>\<open>latencies\<close>, and its entry at each position is \<^verbatim>\<open>batch_size * 1000\<close> divided by
  the latency at that position, which is not zero.
\<close>

theorem get_model_test_metrics_throughputs:
  assumes "get_model_test_metrics E m req emf backend nwarmup num_iter w = (Inr r, w')"
    and "''throughputs'' \<in> set req"
  shows "\<exists>a. attrs_of m = Some a
       \<and> length (throughputs r) = length (latencies r)
       \<and> (\<forall>i < length (latencies r). latencies r ! i \<noteq> 0
            \<and> throughputs r ! i = real_of_int (attr_batch_size a * 1000) / latencies r ! i)"
proof -
  from get_model_test_metrics_steps [OF assms(1)] obtain a pid r1 r2 r3 w1 w2 w3 where
    a: "attrs_of m = Some a" and
    s3: "derive_throughputs a req r2 w2 = (Inr r3, w3)" and
    s4: "read_attributes E a req r3 w3 = (Inr r, w')"
    by blast
  from derive_throughputs_frame [OF s3] assms(2)
  have nz: "0 \<notin> set (latencies r2)"
    and r3: "r3 = r2\<lparr>throughputs :=
                     map (\<lambda>latency. real_of_int (attr_batch_size a * 1000) / latency)
                         (latencies r2)\<rparr>"
    by simp_all
  from read_attributes_frame [OF s4] r3
  have l: "latencies r = latencies r2"
    and t: "throughputs r = map (\<lambda>latency. real_of_int (attr_batch_size a * 1000) / latency)
                               (latencies r2)"
    by simp_all
  have "length (throughputs r) = length (latencies r)
       \<and> (\<forall>i < length (latencies r). latencies r ! i \<noteq> 0
            \<and> throughputs r ! i = real_of_int (attr_batch_size a * 1000) / latencies r ! i)"
    using l t nz by (auto simp: in_set_conv_nth)
  with a show ?thesis by blast
qed

theorem get_model_test_metrics_throughputs_witness:
  "get_model_test_metrics sample_env (ModelTask sample_attrs)
       [''throughputs'', ''cpu_peak_mem''] [] ''nvml'' 0 2 w0
     = (Inr \<lparr>latencies = [20, 20], throughputs = [200, 200], accuracy = None,
              cpu_peak_mem = Some 128, gpu_peak_mem = None, ttfb = None,
              pt2_compilation_time = None, pt2_graph_breaks = None,
              model_flops = None, error_msg = None\<rparr>,
        \<lparr>clock = 100000000,
         trace = [Called (Returns 20000000), Called (Returns 20000000),
                  NewAnalyzer [] [''cpu_peak_mem''] ''nvml'' (Some 77),
                  Called (Returns 20000000), StartMonitor, Called (Returns 20000000),
                  Called (Returns 20000000), StopMonitor, Aggregate,
                  CalculateCpuPeakMem]\<rparr>)
   \<and> ''throughputs'' \<in> set [''throughputs'', ''cpu_peak_mem'']
   \<and> length [200, 200 :: real] = length [20, 20 :: real]
   \<and> (200 :: real) = real_of_int (4 * 1000) / 20"
proof -
  let ?r = "\<lparr>latencies = [20, 20], throughputs = [200, 200], accuracy = None,
              cpu_peak_mem = Some 128, gpu_peak_mem = None, ttfb = None,
              pt2_compilation_time = None, pt2_graph_breaks = None,
              model_flops = None, error_msg = None\<rparr>"
  let ?w = "\<lparr>clock = 100000000,
         trace = [Called (Returns 20000000), Called (Returns 20000000),
                  NewAnalyzer [] [''cpu_peak_mem''] ''nvml'' (Some 77),
                  Called (Returns 20000000), StartMonitor, Called (Returns 20000000),
                  Called (Returns 20000000), StopMonitor, Aggregate,
                  CalculateCpuPeakMem]\<rparr>"
  have run: "get_model_test_metrics sample_env (ModelTask sample_attrs)
       [''throughputs'', ''cpu_peak_mem''] [] ''nvml'' 0 2 w0 = (Inr ?r, ?w)"
    by (simp add: metrics_simps run_simps)
  have req: "''throughputs'' \<in> set [''throughputs'', ''cpu_peak_mem'']" by simp
  from get_model_test_metrics_throughputs [OF run req]
  have "length (throughputs ?r) = length (latencies ?r)" by blast
  with run show ?thesis by simp
qed

subsection \<open>The run-config driver\<close>

lemma get_model_test_metrics_accuracy_untouched:
  assumes "get_model_test_metrics E m req emf backend nwarmup num_iter w = (Inr r, w')"
  shows "accuracy r = None"
proof -
  from get_model_test_metrics_steps [OF assms] obtain a pid r1 r2 r3 w1 w2 w3 where
    s1: "measure_latencies a req nwarmup num_iter empty_metrics w = (Inr r1, w1)" and
    s2: "measure_peak_memory E a pid req emf backend r1 w1 = (Inr r2, w2)" and
    s3: "derive_throughputs a req r2 w2 = (Inr r3, w3)" and
    s4: "read_attributes E a req r3 w3 = (Inr r, w')"
    by blast
  have "accuracy r3 = accuracy r2"
    using derive_throughputs_frame [OF s3] by (cases "''throughputs'' \<in> set req") simp_all
  with measure_latencies_frame [OF s1] measure_peak_memory_frame [OF s2]
    read_attributes_frame [OF s4]
  show ?thesis by (simp add: empty_metrics_def)
qed

lemma measure_rest_accuracy_untouched:
  assumes "measure_rest E config req w = (Inr r, w')"
  shows "accuracy r = None"
proof (cases "req = []")
  case True
  with assms show ?thesis by (auto simp: measure_rest_def empty_metrics_def)
next
  case False
  with assms obtain task where
    "get_model_test_metrics E task req [] ''nvml'' WARMUP_ROUNDS BENCHMARK_ITERS
       (emit (LoadModelIsolated config) w) = (Inr r, w')"
    by (auto simp: measure_rest_def split: sum.splits)
  from get_model_test_metrics_accuracy_untouched [OF this] show ?thesis .
qed

lemma run_config_single_accuracy_lost:
  assumes "run_config E config False False w = (Inr (AsRecord r), w')"
    and "''accuracy'' \<notin> set (remove1 ''accuracy'' (metrics config))"
  shows "accuracy r = None"
proof -
  from assms(1) obtain acc req r0 w1 w2 where
    t: "take_accuracy E config (metrics config) (emit (PrintRunningConfig config) w)
          = (Inr (acc, req), w1)" and
    m: "measure_rest E config req w1 = (Inr r0, w2)" and
    r: "r = (if ''accuracy'' \<in> set req then r0\<lparr>accuracy := acc\<rparr> else r0)"
    by (auto simp: run_config_def Let_def seq_def ret_def effect_def as_output_def
        split: prod.splits sum.splits)
  from t have "req = remove1 ''accuracy'' (metrics config) \<or> req = metrics config \<and> ''accuracy'' \<notin> set req"
    by (auto simp: take_accuracy_def seq_def ret_def split: if_splits prod.splits sum.splits)
  with assms(2) have "''accuracy'' \<notin> set req" by auto
  with r measure_rest_accuracy_untouched [OF m] show ?thesis by simp
qed

text \<open>
  Claim C1 does not hold of the code. \<^verbatim>\<open>run_config\<close> removes \<^verbatim>\<open>accuracy\<close> from
  \<^verbatim>\<open>required_metrics\<close> on line 268 and tests the same list again on line 275, so the
  merge of line 276 is skipped: for the configuration that requests \<^verbatim>\<open>accuracy\<close>,
  \<^verbatim>\<open>get_model_accuracy\<close> evaluates to \<^verbatim>\<open>pass\<close> and the returned record holds
  \<^verbatim>\<open>None\<close>.
\<close>

theorem run_config_accuracy_not_merged:
  "get_model_accuracy sample_env sample_config True (emit (PrintRunningConfig sample_config) w0)
     = (Inr (Some ''pass''),
        \<lparr>clock = 0,
         trace = [PrintRunningConfig sample_config,
                  LoadModelIsolated (sample_config\<lparr>extra_args := [''--accuracy'', ''--bs'', ''4'']\<rparr>),
                  DeleteModel]\<rparr>)
   \<and> run_config sample_env sample_config False False w0
     = (Inr (AsRecord \<lparr>latencies = [], throughputs = [], accuracy = None,
              cpu_peak_mem = None, gpu_peak_mem = None, ttfb = None,
              pt2_compilation_time = None, pt2_graph_breaks = None,
              model_flops = None, error_msg = None\<rparr>),
        \<lparr>clock = 0,
         trace = [PrintRunningConfig sample_config,
                  LoadModelIsolated (sample_config\<lparr>extra_args := [''--accuracy'', ''--bs'', ''4'']\<rparr>),
                  DeleteModel, Print ''[done]'']\<rparr>)"
  by (simp add: run_config_def take_accuracy_def get_model_accuracy_def measure_rest_def
      as_output_def attrs_of_def sample_config_def metrics_simps run_simps)

section \<open>Properties of upload_s3_csv.py\<close>

lemma nullable_lang: "nullable r = ([] \<in> lang r)"
  by (induction r) (auto simp: conc_def intro: star.star_empty)

lemma star_unfold_Cons:
  "(a # w \<in> star A) = (\<exists>u v. w = u @ v \<and> a # u \<in> A \<and> v \<in> star A)"
proof
  assume "a # w \<in> star A"
  then show "\<exists>u v. w = u @ v \<and> a # u \<in> A \<and> v \<in> star A"
  proof (induction "a # w" arbitrary: w rule: star.induct)
    case (star_more xs ys)
    show ?case
    proof (cases xs)
      case Nil
      with star_more show ?thesis by simp
    next
      case (Cons x xs')
      with star_more.hyps(1,2,4) have "w = xs' @ ys \<and> a # xs' \<in> A \<and> ys \<in> star A"
        by simp
      then show ?thesis by blast
    qed
  qed
next
  assume "\<exists>u v. w = u @ v \<and> a # u \<in> A \<and> v \<in> star A"
  then obtain u v where "w = u @ v" "a # u \<in> A" "v \<in> star A" by blast
  then have "(a # u) @ v \<in> star A" by (intro star.star_more)
  with \<open>w = u @ v\<close> show "a # w \<in> star A" by simp
qed

lemma conc_Cons:
  "(a # w \<in> conc A B) =
     ((\<exists>u v. w = u @ v \<and> a # u \<in> A \<and> v \<in> B) \<or> ([] \<in> A \<and> a # w \<in> B))"
  by (auto simp: conc_def Cons_eq_append_conv) 

lemma after_lang: "(w \<in> lang (after a r)) = (a # w \<in> lang r)"
proof (induction r arbitrary: w)
  case (Cat r s)
  then show ?case
    by (auto simp: conc_Cons nullable_lang) (auto simp: conc_def)
next
  case (Star r)
  then show ?case
    by (auto simp: star_unfold_Cons conc_def)
qed auto

lemma re_match_prefix: "re_match r s = matches_at_start r s"
proof (induction s arbitrary: r)
  case Nil
  then show ?case by (simp add: matches_at_start_def nullable_lang)
next
  case (Cons c cs)
  have "matches_at_start r (c # cs) = ([] \<in> lang r \<or> matches_at_start (after c r) cs)"
  proof
    assume "matches_at_start r (c # cs)"
    then obtain p where p: "prefix p (c # cs)" "p \<in> lang r"
      by (auto simp: matches_at_start_def)
    show "[] \<in> lang r \<or> matches_at_start (after c r) cs"
    proof (cases p)
      case Nil
      with p show ?thesis by simp
    next
      case (Cons x p')
      with p have "prefix p' cs" "p' \<in> lang (after c r)"
        by (simp_all add: after_lang)
      then show ?thesis by (auto simp: matches_at_start_def)
    qed
  next
    assume "[] \<in> lang r \<or> matches_at_start (after c r) cs"
    then show "matches_at_start r (c # cs)"
    proof
      assume "[] \<in> lang r"
      then have "prefix [] (c # cs) \<and> [] \<in> lang r" by simp
      then show ?thesis unfolding matches_at_start_def by blast
    next
      assume "matches_at_start (after c r) cs"
      then obtain p where "prefix p cs" "p \<in> lang (after c r)"
        by (auto simp: matches_at_start_def)
      then have "prefix (c # p) (c # cs) \<and> c # p \<in> lang r"
        by (simp add: after_lang)
      then show ?thesis unfolding matches_at_start_def by blast
    qed
  qed
  with Cons show ?case by (simp add: nullable_lang)
qed

lemma re_match_eq: "re_match r = matches_at_start r"
  by (rule ext) (rule re_match_prefix)

text \<open>
  Claim C10. For every directory listing and every compiled pattern,
  \<^verbatim>\<open>_get_files_to_upload\<close> returns exactly the names of which some prefix is in the
  language of the pattern (a match from the start of the name), in the order of the
  listing: the result is a subsequence of the listing, and a name is in it if and only
  if it is listed and matches.
\<close>

theorem get_files_to_upload_exactly_matches:
  assumes "re_compile match_filename = Inr filename_regex"
    and "listdir file_path = Inr names"
  shows "get_files_to_upload re_compile listdir file_path match_filename
           = Inr (filter (matches_at_start filename_regex) names)
       \<and> subseq (filter (matches_at_start filename_regex) names) names
       \<and> set (filter (matches_at_start filename_regex) names)
           = {n \<in> set names. matches_at_start filename_regex n}"
proof -
  have "filter (re_match filename_regex) names = filter (matches_at_start filename_regex) names"
    by (simp add: re_match_eq)
  with assms show ?thesis
    by (simp add: get_files_to_upload_def)
qed

theorem get_files_to_upload_exactly_matches_witness:
  "get_files_to_upload sample_compile sample_listdir ''out'' ''foo.*'' = Inr [''foo.json'']
   \<and> get_files_to_upload sample_compile sample_listdir ''out'' ''ba'' = Inr [''bar.json'', ''baz.txt'']"
proof -
  have f: "filter (matches_at_start (Cat (Chr CHR ''f'') (Cat (Chr CHR ''o'') (Cat (Chr CHR ''o'') (Star Dot)))))
             [''foo.json'', ''bar.json'', ''xfoo.json'', ''baz.txt''] = [''foo.json'']"
    by (simp add: re_match_eq [symmetric])
  have b: "filter (matches_at_start (Cat (Chr CHR ''b'') (Chr CHR ''a'')))
             [''foo.json'', ''bar.json'', ''xfoo.json'', ''baz.txt''] = [''bar.json'', ''baz.txt'']"
    by (simp add: re_match_eq [symmetric])
  have c1: "sample_compile ''foo.*'' = Inr (Cat (Chr CHR ''f'') (Cat (Chr CHR ''o'') (Cat (Chr CHR ''o'') (Star Dot))))"
    and c2: "sample_compile ''ba'' = Inr (Cat (Chr CHR ''b'') (Chr CHR ''a''))"
    and l: "sample_listdir ''out'' = Inr [''foo.json'', ''bar.json'', ''xfoo.json'', ''baz.txt'']"
    by (simp_all add: sample_compile_def sample_listdir_def)
  from get_files_to_upload_exactly_matches
         [where re_compile = sample_compile and listdir = sample_listdir, OF c1 l]
       get_files_to_upload_exactly_matches
         [where re_compile = sample_compile and listdir = sample_listdir, OF c2 l]
       f b
  show ?thesis by simp
qed

section \<open>Properties of \<^verbatim>\<open>post_ci_process\<close>\<close>

lemma process_file_never_writes:
  assumes "get_model_set path = Inr modelset" and "files d path = Some content"
  shows "process_file E path d
           = (Inl MissingFieldnames, d\<lparr>stdout := stdout d @ [''Processing file '' @ path @ '' '']\<rparr>)"
  using assms by (simp add: process_file_def open_file_def DictWriter_def Let_def)

lemma process_file_keeps_files: "files (snd (process_file E path d)) = files d"
  by (simp add: process_file_def open_file_def DictWriter_def Let_def
      split: sum.splits option.splits)

lemma post_ci_process_keeps_files: "files (snd (post_ci_process E output_files d)) = files d"
proof (induction output_files arbitrary: d)
  case Nil
  then show ?case by simp
next
  case (Cons path output_files)
  show ?case
  proof (cases "process_file E path d")
    case (Pair res d')
    then have "files d' = files d" using process_file_keeps_files [of E path d] by simp
    with Pair Cons.IH [of d'] show ?thesis by (cases res) simp_all
  qed
qed

lemma decorate_sample:
  "decorate sample_ci_env ''out/torchbench_perf.csv'' ''torchbench''
       [(''name'', Str ''resnet50''), (''speedup'', Str ''1.5'')]
     = [(''name'', Str ''resnet50''), (''speedup'', Str ''1.5''),
        (''workflow_id'', Str ''9001''), (''run_attempt'', Num 0),
        (''test_name'', Str ''torchao_torchbench_perf''), (''runner'', Str ''gcp_a100''),
        (''job_id'', Num 0), (''filename'', Str ''torchbench_perf''),
        (''head_repo'', Str ''pytorch/ao''), (''head_branch'', Str ''main''),
        (''head_sha'', Str ''0.4.0'')]"
  by (simp add: decorate_def dict_update_def environ_get_def sample_ci_env_def
      basename_def splitext_root_def)

text \<open>
  Claim C2 does not hold of the code. For a path of a known category and an existing
  file the rows are read and decorated, but the file is never rewritten: the second
  \<^verbatim>\<open>open(path)\<close> is for reading again, and \<^verbatim>\<open>csv.DictWriter(csvfile)\<close> lacks the
  required field names, so the call raises before a single line is written and the file
  keeps its content.
\<close>

theorem post_ci_process_fails_to_rewrite:
  "get_model_set ''out/torchbench_perf.csv'' = Inr ''torchbench''
   \<and> post_ci_process sample_ci_env [''out/torchbench_perf.csv''] sample_disk
       = (Inl MissingFieldnames,
          sample_disk\<lparr>stdout := [''Processing file out/torchbench_perf.csv '']\<rparr>)
   \<and> files (sample_disk\<lparr>stdout := [''Processing file out/torchbench_perf.csv '']\<rparr>)
         ''out/torchbench_perf.csv'' = Some ''name,speedup''"
  by (simp add: get_model_set_def process_file_def open_file_def DictWriter_def Let_def
      sample_disk_def)

end
